theory Spec2Isabelle
  imports Complex_Main
begin

section \<open>The runtime the script relies on\<close>

text \<open>
  The update script (\<^verbatim>\<open>scripts/update-data.js\<close>) is JavaScript. The few built-ins it
  calls are written out here, so that the four update tasks below can be read
  side by side with the script and run on concrete provider payloads.
\<close>

subsection \<open>Numbers\<close>

text \<open>
  A JavaScript number is an IEEE 754 double: \<open>NaN\<close>, one of the two infinities, or a
  finite value, given here by the real number it stands for. (The sign of zero is not
  kept: no output of the script tells \<open>-0\<close> from \<open>0\<close>.)
\<close>

datatype jsnum = NaN | Num real | PosInfinity | NegInfinity

text \<open>
  Rounding a real number to the nearest double, a tie going to the even significand.
  \<open>binExp a\<close> is the binary exponent of a positive \<open>a\<close>, the \<open>e\<close> with
  \<open>2^e \<le> a < 2^(e+1)\<close>; doubles with exponent \<open>e\<close> are the multiples of \<open>2^(e-52)\<close>,
  those below \<open>2^-1022\<close> the multiples of \<open>2^-1074\<close>; a result of \<open>2^1024\<close> or more is
  an infinity.
\<close>

definition pow2 :: "int \<Rightarrow> real" where
  "pow2 k = (if 0 \<le> k then 2 ^ nat k else 1 / 2 ^ nat (- k))"

function expUp :: "real \<Rightarrow> int" where
  "expUp a = (if a < 2 then 0 else 1 + expUp (a / 2))"
  by pat_completeness auto

termination
proof (relation "measure (\<lambda>a. nat \<lfloor>a\<rfloor>)")
  show "wf (measure (\<lambda>a. nat \<lfloor>a\<rfloor>))"
    by simp
next
  fix a :: real
  assume "\<not> a < 2"
  then have "a / 2 < of_int \<lfloor>a\<rfloor>" and "0 < \<lfloor>a\<rfloor>"
    by linarith+
  then have "\<lfloor>a / 2\<rfloor> < \<lfloor>a\<rfloor>"
    by linarith
  with \<open>0 < \<lfloor>a\<rfloor>\<close> show "(a / 2, a) \<in> measure (\<lambda>a. nat \<lfloor>a\<rfloor>)"
    by simp
qed

declare expUp.simps [simp del]

definition expDown :: "int \<Rightarrow> real \<Rightarrow> int" where
  "expDown k t = (if pow2 k = t then - k else - (k + 1))"

definition binExp :: "real \<Rightarrow> int" where
  "binExp a = (if 1 \<le> a then expUp a else expDown (expUp (1 / a)) (1 / a))"

definition tieToEven :: "int \<Rightarrow> real \<Rightarrow> int" where
  "tieToEven f q =
     (if q - of_int f < 1 / 2 then f
      else if 1 / 2 < q - of_int f then f + 1
      else if even f then f else f + 1)"

definition roundHalfEven :: "real \<Rightarrow> int" where
  "roundHalfEven q = tieToEven \<lfloor>q\<rfloor> q"

definition quantize :: "int \<Rightarrow> real \<Rightarrow> real" where
  "quantize e a = of_int (roundHalfEven (a / pow2 (e - 52))) * pow2 (e - 52)"

definition finiteOrInfinite :: "bool \<Rightarrow> real \<Rightarrow> jsnum" where
  "finiteOrInfinite negative y =
     (if pow2 1024 \<le> y then (if negative then NegInfinity else PosInfinity)
      else Num (if negative then - y else y))"

definition toDouble :: "real \<Rightarrow> jsnum" where
  "toDouble x =
     (if x = 0 then Num 0
      else finiteOrInfinite (x < 0) (quantize (max (binExp \<bar>x\<bar>) (- 1022)) \<bar>x\<bar>))"

text \<open>
  \<open>+\<close> and \<open>*\<close> on numbers: the exact sum or product of two finite operands, rounded to
  the nearest double.
\<close>

fun jadd :: "jsnum \<Rightarrow> jsnum \<Rightarrow> jsnum" where
  "jadd (Num a) (Num b) = toDouble (a + b)"
| "jadd NaN b = NaN"
| "jadd a NaN = NaN"
| "jadd PosInfinity NegInfinity = NaN"
| "jadd NegInfinity PosInfinity = NaN"
| "jadd PosInfinity b = PosInfinity"
| "jadd NegInfinity b = NegInfinity"
| "jadd (Num a) PosInfinity = PosInfinity"
| "jadd (Num a) NegInfinity = NegInfinity"

fun signedInfinity :: "bool \<Rightarrow> jsnum" where
  "signedInfinity negative = (if negative then NegInfinity else PosInfinity)"

fun jmul :: "jsnum \<Rightarrow> jsnum \<Rightarrow> jsnum" where
  "jmul (Num a) (Num b) = toDouble (a * b)"
| "jmul NaN b = NaN"
| "jmul a NaN = NaN"
| "jmul PosInfinity (Num b) = (if b = 0 then NaN else signedInfinity (b < 0))"
| "jmul NegInfinity (Num b) = (if b = 0 then NaN else signedInfinity (0 < b))"
| "jmul (Num a) PosInfinity = (if a = 0 then NaN else signedInfinity (a < 0))"
| "jmul (Num a) NegInfinity = (if a = 0 then NaN else signedInfinity (0 < a))"
| "jmul PosInfinity PosInfinity = PosInfinity"
| "jmul NegInfinity NegInfinity = PosInfinity"
| "jmul PosInfinity NegInfinity = NegInfinity"
| "jmul NegInfinity PosInfinity = NegInfinity"

text \<open>
  \<open>Math.round\<close>: the nearest integer, a tie going up. The language defines it on the
  exact value of its argument, and the result of rounding a double is a double.
\<close>

fun mathRound :: "jsnum \<Rightarrow> jsnum" where
  "mathRound NaN = NaN"
| "mathRound (Num x) = Num (of_int \<lfloor>x + 1 / 2\<rfloor>)"
| "mathRound PosInfinity = PosInfinity"
| "mathRound NegInfinity = NegInfinity"

subsection \<open>Digits\<close>

definition isDigit :: "char \<Rightarrow> bool" where
  "isDigit c = (c \<in> set ''0123456789'')"

definition digitVal :: "char \<Rightarrow> nat" where
  "digitVal c = of_char c - 48"

definition digitsVal :: "string \<Rightarrow> nat" where
  "digitsVal ds = foldl (\<lambda>acc c. 10 * acc + digitVal c) 0 ds"

text \<open>A natural number as the template literal \<^verbatim>\<open>${n}\<close> prints it.\<close>

fun showNat :: "nat \<Rightarrow> string" where
  "showNat n =
     (if n < 10 then [''0123456789'' ! n]
      else showNat (n div 10) @ [''0123456789'' ! (n mod 10)])"

declare showNat.simps [simp del]

definition showInt :: "int \<Rightarrow> string" where
  "showInt i = (if i < 0 then ''-'' @ showNat (nat (- i)) else showNat (nat i))"

subsection \<open>parseFloat and toFixed\<close>

definition isSpace :: "char \<Rightarrow> bool" where
  "isSpace c = (c \<in> set [CHR '' '', CHR 0x09, CHR 0x0A, CHR 0x0B, CHR 0x0C, CHR 0x0D])"

text \<open>
  An optional exponent after the mantissa: \<open>e\<close> or \<open>E\<close>, an optional sign and at least
  one digit; anything else is trailing text, which \<open>parseFloat\<close> ignores.
\<close>

definition exponentOf :: "string \<Rightarrow> int" where
  "exponentOf r =
     (case r of
        [] \<Rightarrow> 0
      | e # r1 \<Rightarrow>
          if e = CHR ''e'' \<or> e = CHR ''E'' then
            (case r1 of
               [] \<Rightarrow> 0
             | s # r2 \<Rightarrow>
                 if s = CHR ''-'' then - int (digitsVal (takeWhile isDigit r2))
                 else if s = CHR ''+'' then int (digitsVal (takeWhile isDigit r2))
                 else int (digitsVal (takeWhile isDigit r1)))
          else 0)"

definition scale10 :: "real \<Rightarrow> int \<Rightarrow> real" where
  "scale10 x e = (if 0 \<le> e then x * 10 ^ nat e else x / 10 ^ nat (- e))"

text \<open>
  The decimal literal at the start of a text, as the real number it denotes: digits
  with an optional fraction and an optional exponent; \<open>None\<close> when the text does not
  start with one.
\<close>

definition parseUnsigned :: "string \<Rightarrow> real option" where
  "parseUnsigned r =
     (let ip = takeWhile isDigit r;
          r1 = dropWhile isDigit r;
          fp = (case r1 of [] \<Rightarrow> [] | c # r2 \<Rightarrow> if c = CHR ''.'' then takeWhile isDigit r2 else []);
          r3 = (case r1 of [] \<Rightarrow> [] | c # r2 \<Rightarrow> if c = CHR ''.'' then dropWhile isDigit r2 else r1)
      in if ip = [] \<and> fp = [] then None
         else Some (scale10 (real (digitsVal (ip @ fp)) / 10 ^ length fp) (exponentOf r3)))"

text \<open>
  The text after the sign: the literal \<open>Infinity\<close>, or a decimal literal, whose value is
  rounded to the nearest double; anything else is \<open>NaN\<close>.
\<close>

definition parseMagnitude :: "bool \<Rightarrow> string \<Rightarrow> jsnum" where
  "parseMagnitude negative r =
     (if take 8 r = ''Infinity'' then signedInfinity negative
      else case parseUnsigned r of
             None \<Rightarrow> NaN
           | Some x \<Rightarrow> toDouble (if negative then - x else x))"

text \<open>\<open>parseFloat\<close>: leading white space, an optional sign, then the magnitude.\<close>

definition parseFloat :: "string \<Rightarrow> jsnum" where
  "parseFloat s =
     (case dropWhile isSpace s of
        [] \<Rightarrow> NaN
      | c # r \<Rightarrow>
          if c = CHR ''-'' then parseMagnitude True r
          else if c = CHR ''+'' then parseMagnitude False r
          else parseMagnitude False (c # r))"

text \<open>
  A finite number of \<open>10^21\<close> or more as a text (\<open>Number::toString\<close>), which is what
  \<open>toFixed\<close> gives for it: the fewest digits \<open>s\<close>, \<open>k\<close> of them, such that
  \<open>s * 10^p\<close> rounds to the number; of two such \<open>s\<close> the nearer one, the even one at a
  tie; printed as \<open>d.ddde+n\<close>. Seventeen digits always suffice.
\<close>

definition roundsTo :: "real \<Rightarrow> nat \<Rightarrow> nat \<Rightarrow> bool" where
  "roundsTo x s p = (toDouble (real s * 10 ^ p) = Num x)"

definition nearer :: "real \<Rightarrow> nat \<Rightarrow> nat \<Rightarrow> nat" where
  "nearer x p lo =
     (if x - real lo * 10 ^ p < real (lo + 1) * 10 ^ p - x then lo
      else if real (lo + 1) * 10 ^ p - x < x - real lo * 10 ^ p then lo + 1
      else if even lo then lo else lo + 1)"

definition digitsAt :: "real \<Rightarrow> nat \<Rightarrow> nat \<Rightarrow> nat option" where
  "digitsAt x p lo =
     (if roundsTo x lo p then Some (if roundsTo x (lo + 1) p then nearer x p lo else lo)
      else if roundsTo x (lo + 1) p then Some (lo + 1)
      else None)"

text \<open>The number of digits of a natural number.\<close>

fun digitCount :: "nat \<Rightarrow> nat" where
  "digitCount n = (if n < 10 then 1 else digitCount (n div 10) + 1)"

declare digitCount.simps [simp del]

definition stripZeros :: "string \<Rightarrow> string" where
  "stripZeros ds = rev (dropWhile (\<lambda>c. c = CHR ''0'') (rev ds))"

definition exponentForm :: "nat \<Rightarrow> nat \<Rightarrow> string" where
  "exponentForm p s =
     (case stripZeros (showNat s) of
        [] \<Rightarrow> []
      | c # cs \<Rightarrow>
          (c # (if cs = [] then [] else ''.'' @ cs)) @ ''e+'' @ showNat (digitCount s + p - 1))"

text \<open>With \<open>k\<close> digits, for a number whose integer part has \<open>n\<close> digits.\<close>

definition shortestAt :: "real \<Rightarrow> nat \<Rightarrow> nat \<Rightarrow> string option" where
  "shortestAt x n k =
     map_option (exponentForm (n - k)) (digitsAt x (n - k) (nat \<lfloor>x / 10 ^ (n - k)\<rfloor>))"

function shortestFrom :: "real \<Rightarrow> nat \<Rightarrow> nat \<Rightarrow> string" where
  "shortestFrom x n k =
     (if 17 < k then []
      else case shortestAt x n k of
             Some t \<Rightarrow> t
           | None \<Rightarrow> shortestFrom x n (k + 1))"
  by pat_completeness auto

termination
  by (relation "measure (\<lambda>(x, n, k). 18 - k)") auto

declare shortestFrom.simps [simp del]

definition largeToString :: "real \<Rightarrow> string" where
  "largeToString x = shortestFrom x (digitCount (nat \<lfloor>x\<rfloor>)) 1"

text \<open>
  \<open>x.toFixed(f)\<close>, which the language defines on the exact value of \<open>x\<close>: below
  \<open>10^21\<close> the integer \<open>n\<close> nearest to \<open>|x| * 10^f\<close> (the larger one at a tie), printed
  with at least \<open>f + 1\<close> digits and the point before the last \<open>f\<close>; from \<open>10^21\<close> on
  the text of the number; a minus sign for negative \<open>x\<close>.
\<close>

definition padZeros :: "nat \<Rightarrow> string \<Rightarrow> string" where
  "padZeros k ds = replicate (k - length ds) CHR ''0'' @ ds"

definition pointBefore :: "nat \<Rightarrow> string \<Rightarrow> string" where
  "pointBefore f ds =
     (if f = 0 then ds else take (length ds - f) ds @ ''.'' @ drop (length ds - f) ds)"

fun toFixed :: "jsnum \<Rightarrow> nat \<Rightarrow> string" where
  "toFixed NaN f = ''NaN''"
| "toFixed PosInfinity f = ''Infinity''"
| "toFixed NegInfinity f = ''-Infinity''"
| "toFixed (Num x) f =
     (if x < 0 then ''-'' else [])
       @ (if 10 ^ 21 \<le> \<bar>x\<bar> then largeToString \<bar>x\<bar>
          else pointBefore f (padZeros (f + 1) (showNat (nat \<lfloor>\<bar>x\<bar> * 10 ^ f + 1 / 2\<rfloor>))))"

subsection \<open>Strings\<close>

definition toLowerChar :: "char \<Rightarrow> char" where
  "toLowerChar c =
     (case map_of (zip ''ABCDEFGHIJKLMNOPQRSTUVWXYZ'' ''abcdefghijklmnopqrstuvwxyz'') c of
        None \<Rightarrow> c
      | Some l \<Rightarrow> l)"

text \<open>\<open>toLowerCase\<close> on ASCII letters; other bytes are kept.\<close>

definition toLowerCase :: "string \<Rightarrow> string" where
  "toLowerCase s = map toLowerChar s"

text \<open>Does the text contain the word somewhere (\<open>String.prototype.includes\<close>)?\<close>

fun includesStr :: "string \<Rightarrow> string \<Rightarrow> bool" where
  "includesStr [] w = (w = [])"
| "includesStr (c # cs) w = (take (length w) (c # cs) = w \<or> includesStr cs w)"

text \<open>
  \<open>text.match(/w1|w2|.../)\<close> used as a condition: true when one of the alternatives,
  all plain words here, occurs in the text.
\<close>

definition matchAny :: "string \<Rightarrow> string list \<Rightarrow> bool" where
  "matchAny t ws = list_ex (includesStr t) ws"

text \<open>\<open>s.split('T')[0]\<close>: the text before the first \<open>T\<close>.\<close>

definition beforeT :: "string \<Rightarrow> string" where
  "beforeT s = takeWhile (\<lambda>c. c \<noteq> CHR ''T'') s"

text \<open>A value in a condition: \<open>undefined\<close>, \<open>null\<close> and the empty string are falsy.\<close>

fun truthy :: "string option \<Rightarrow> bool" where
  "truthy None = False"
| "truthy (Some s) = (s \<noteq> [])"

text \<open>A value inside a template literal or a string concatenation.\<close>

fun undefinedOr :: "string option \<Rightarrow> string" where
  "undefinedOr None = ''undefined''"
| "undefinedOr (Some s) = s"

fun nullOr :: "string option \<Rightarrow> string" where
  "nullOr None = ''null''"
| "nullOr (Some s) = s"

subsection \<open>Dates\<close>

text \<open>
  A \<open>Date\<close> as the three getters of \<open>formatDate\<close> see it: the year, the month index
  from 0, the day of the month; or the invalid date. The time of day is not among
  them.

  Which texts \<open>new Date(text)\<close> accepts beyond the ISO forms is left to the platform,
  and the getters answer in the time zone of the machine. Neither is the script's, so
  the reading of a text as a \<open>Date\<close> is a part of the environment of a run
  (\<open>newDate\<close> below), not a definition here.
\<close>

datatype jsdate = InvalidDate | Date int nat nat

definition months :: "string list" where
  "months = [''Jan'', ''Feb'', ''Mar'', ''Apr'', ''May'', ''Jun'',
             ''Jul'', ''Aug'', ''Sep'', ''Oct'', ''Nov'', ''Dec'']"

text \<open>\<open>months[i]\<close> inside the template literal: \<open>undefined\<close> past the end of the array.\<close>

definition monthName :: "nat \<Rightarrow> string" where
  "monthName m = (if m < length months then months ! m else ''undefined'')"

text \<open>
  The template literal of line 325, from the three getters. On an invalid date the
  getters return \<open>NaN\<close>, and \<open>months[NaN]\<close> is \<open>undefined\<close>.
\<close>

fun formatDate_of :: "jsdate \<Rightarrow> string" where
  "formatDate_of InvalidDate = ''undefined NaN, NaN''"
| "formatDate_of (Date y m d) = monthName m @ '' '' @ showNat d @ '', '' @ showInt y"

section \<open>What the providers send and what the script writes\<close>

subsection \<open>Provider payloads\<close>

text \<open>
  The outcome of \<open>fetch(url)\<close>: the promise rejects (no connection), or a response
  arrives with its \<open>ok\<close> flag and its body, \<open>None\<close> when the body is not JSON, on
  which \<open>response.json()\<close> throws.
\<close>

datatype 'b response = Rejected | Response bool "'b option"

text \<open>Twelve Data, \<open>time_series\<close>: the fields the script reads, newest value first.\<close>

record td_value =
  datetime :: string
  close :: string

record td_body =
  td_status :: "string option"
  td_values :: "td_value list option"

text \<open>
  Alpha Vantage, \<open>FX_DAILY\<close>: the \<open>Error Message\<close> field and the entries of
  \<open>Time Series FX (Daily)\<close> in document order, each a day and its \<open>4. close\<close>.
\<close>

record av_body =
  av_error :: "string option"
  av_series :: "(string \<times> string) list option"

text \<open>FRED, \<open>series/observations\<close>, asked for in descending order.\<close>

record fred_obs =
  obs_date :: string
  obs_value :: string

record fred_body =
  error_message :: "string option"
  observations :: "fred_obs list option"

text \<open>NewsAPI, \<open>everything\<close>. \<open>None\<close> is a \<open>null\<close> field.\<close>

record article =
  title :: "string option"
  description :: "string option"
  publishedAt :: "string option"
  url :: "string option"

record news_body =
  news_status :: "string option"
  articles :: "article list option"

text \<open>
  The environment of one run: the four keys read from \<open>process.env\<close> (lines 20-23,
  \<open>None\<close> when unset), the answer of each provider to each URL, what \<open>new Date(text)\<close>
  is on the machine, and the clock.
\<close>

record env =
  ALPHA_VANTAGE_KEY :: "string option"
  FRED_KEY :: "string option"
  TWELVE_DATA_KEY :: "string option"
  NEWS_API_KEY :: "string option"
  twelveData :: "string \<Rightarrow> td_body response"
  alphaVantage :: "string \<Rightarrow> av_body response"
  fred :: "string \<Rightarrow> fred_body response"
  newsApi :: "string \<Rightarrow> news_body response"
  newDate :: "string \<Rightarrow> jsdate"
  now :: string

text \<open>\<open>formatDate\<close> (lines 322-326), on the machine of the run.\<close>

definition formatDate :: "env \<Rightarrow> string \<Rightarrow> string" where
  "formatDate e dateString = formatDate_of (newDate e dateString)"

subsection \<open>Record sets\<close>

record price_point =
  p_date :: string
  price :: jsnum

record goldData =
  g_lastUpdated :: string
  currentPrice :: jsnum
  g_source :: string
  history :: "price_point list"

record fed_point =
  f_date :: string
  fedRate :: "string option"
  realYield :: "string option"

record fedData =
  f_lastUpdated :: string
  f_source :: string
  currentFedRate :: "string option"
  currentRealYield :: "string option"
  f_data :: "fed_point list"

record dxy_point =
  x_date :: string
  dxy :: string

record dxyData =
  x_lastUpdated :: string
  x_source :: string
  currentDXY :: string
  x_data :: "dxy_point list"

datatype severity = Low | Medium | High

datatype impact = Positive | Neutral | Negative

record geo_event =
  e_date :: string
  event :: string
  e_severity :: severity
  e_impact :: impact
  e_url :: "string option"

record geoData =
  n_lastUpdated :: string
  n_source :: string
  events :: "geo_event list"

subsection \<open>The world the script acts on\<close>

text \<open>
  The requests sent so far, oldest first, and the four files of \<open>public/data\<close>
  (\<open>None\<close>: not written yet). \<open>saveData\<close> (lines 37-41) replaces a file as a whole;
  a failing disk is not modelled.
\<close>

record world =
  requests :: "string list"
  gold_price_json :: "goldData option"
  fed_policy_json :: "fedData option"
  dollar_index_json :: "dxyData option"
  geopolitical_events_json :: "geoData option"

datatype error = FetchFailed | SyntaxError | ApiError | TypeError

definition sent :: "string \<Rightarrow> world \<Rightarrow> world" where
  "sent u w = w\<lparr>requests := requests w @ [u]\<rparr>"

text \<open>\<open>await (await fetch(url)).json()\<close>, with no look at \<open>response.ok\<close>.\<close>

fun jsonOf :: "'b response \<Rightarrow> error + 'b" where
  "jsonOf Rejected = Inl FetchFailed"
| "jsonOf (Response ok None) = Inl SyntaxError"
| "jsonOf (Response ok (Some b)) = Inr b"

text \<open>
  The same with the check of lines 55-57 and 181-183 between the two steps: a response
  that is not \<open>ok\<close> throws before its body is read.
\<close>

fun jsonIfOk :: "'b response \<Rightarrow> error + 'b" where
  "jsonIfOk Rejected = Inl FetchFailed"
| "jsonIfOk (Response ok body) =
     (if \<not> ok then Inl ApiError
      else case body of None \<Rightarrow> Inl SyntaxError | Some b \<Rightarrow> Inr b)"

section \<open>1. Gold price (lines 46-113)\<close>

definition goldUrl :: "env \<Rightarrow> string" where
  "goldUrl e =
     ''https://api.twelvedata.com/time_series?symbol=XAU/USD&interval=1day&outputsize=365&apikey=''
       @ undefinedOr (TWELVE_DATA_KEY e)"

definition goldFallbackUrl :: "env \<Rightarrow> string" where
  "goldFallbackUrl e =
     ''https://www.alphavantage.co/query?function=FX_DAILY&from_symbol=XAU&to_symbol=USD&outputsize=full&apikey=''
       @ undefinedOr (ALPHA_VANTAGE_KEY e)"

text \<open>
  The body of the outer \<open>try\<close> after the request (lines 55-74). \<open>data.values[0].close\<close>
  throws a \<open>TypeError\<close> when \<open>values\<close> is missing or empty.
\<close>

definition goldPrimary :: "env \<Rightarrow> td_body response \<Rightarrow> error + goldData" where
  "goldPrimary e response =
     (case jsonIfOk response of
        Inl err \<Rightarrow> Inl err
      | Inr data \<Rightarrow>
          if td_status data = Some ''error'' then Inl ApiError
          else
            (case td_values data of
               None \<Rightarrow> Inl TypeError
             | Some vals \<Rightarrow>
                 (case vals of
                    [] \<Rightarrow> Inl TypeError
                  | v0 # _ \<Rightarrow>
                      Inr \<lparr>g_lastUpdated = now e,
                           currentPrice = parseFloat (close v0),
                           g_source = ''Twelve Data API'',
                           history =
                             map (\<lambda>d. \<lparr>p_date = formatDate e (datetime d),
                                        price = mathRound (parseFloat (close d))\<rparr>)
                               (rev (take 180 vals))\<rparr>)))"

text \<open>
  The body of the inner \<open>try\<close> after the request (lines 88-104).
  \<open>Object.entries(undefined)\<close> throws, and so does reading \<open>.price\<close> of the last
  element of an empty history.
\<close>

definition goldFallback :: "env \<Rightarrow> av_body response \<Rightarrow> error + goldData" where
  "goldFallback e fallbackResponse =
     (case jsonOf fallbackResponse of
        Inl err \<Rightarrow> Inl err
      | Inr fallbackData \<Rightarrow>
          if truthy (av_error fallbackData) then Inl ApiError
          else
            (case av_series fallbackData of
               None \<Rightarrow> Inl TypeError
             | Some timeSeries \<Rightarrow>
                 (let hist = map (\<lambda>(date, close4).
                                    \<lparr>p_date = formatDate e date,
                                     price = mathRound (parseFloat close4)\<rparr>)
                               (rev (take 180 timeSeries))
                  in if hist = [] then Inl TypeError
                     else Inr \<lparr>g_lastUpdated = now e,
                               currentPrice = price (last hist),
                               g_source = ''Alpha Vantage API (fallback)'',
                               history = hist\<rparr>)))"

definition updateGoldPrice :: "env \<Rightarrow> world \<Rightarrow> goldData option \<times> world" where
  "updateGoldPrice e w =
     (let w1 = sent (goldUrl e) w in
      case goldPrimary e (twelveData e (goldUrl e)) of
        Inr goldData \<Rightarrow> (Some goldData, w1\<lparr>gold_price_json := Some goldData\<rparr>)
      | Inl err \<Rightarrow>
          (let w2 = sent (goldFallbackUrl e) w1 in
           case goldFallback e (alphaVantage e (goldFallbackUrl e)) of
             Inr goldData \<Rightarrow> (Some goldData, w2\<lparr>gold_price_json := Some goldData\<rparr>)
           | Inl fallbackError \<Rightarrow> (None, w2)))"

section \<open>2. Fed policy (lines 118-167)\<close>

definition fredUrl :: "env \<Rightarrow> string \<Rightarrow> string" where
  "fredUrl e series =
     ''https://api.stlouisfed.org/fred/series/observations?series_id='' @ series
       @ ''&api_key='' @ undefinedOr (FRED_KEY e)
       @ ''&file_type=json&limit=365&sort_order=desc''"

text \<open>An index into an array: \<open>undefined\<close> past its end.\<close>

definition elemAt :: "'a list \<Rightarrow> nat \<Rightarrow> 'a option" where
  "elemAt xs i = (if i < length xs then Some (xs ! i) else None)"

text \<open>The object the callback of lines 141-150 returns.\<close>

definition fedPoint :: "env \<Rightarrow> fred_obs \<Rightarrow> fred_obs option \<Rightarrow> fed_point" where
  "fedPoint e obs realYieldObs =
     \<lparr>f_date = formatDate e (obs_date obs),
      fedRate = (if obs_value obs \<noteq> ''.'' then Some (toFixed (parseFloat (obs_value obs)) 2)
                 else None),
      realYield =
        (case realYieldObs of
           None \<Rightarrow> None
         | Some r \<Rightarrow>
             if obs_value r \<noteq> ''.'' then Some (toFixed (parseFloat (obs_value r)) 2)
             else None)\<rparr>"

text \<open>
  \<open>dffData.observations.reverse().map((obs, idx) => ...)\<close>. \<open>reverse()\<close> reverses the
  array in place, and the callback calls it on \<open>realYieldData.observations\<close> once
  for every element: the third argument is that array as the call for index \<open>idx\<close>
  finds it, and the call hands it on reversed. A missing array (\<open>None\<close>) makes the
  first call throw.
\<close>

fun combine ::
  "env \<Rightarrow> nat \<Rightarrow> fred_obs list \<Rightarrow> fred_obs list option \<Rightarrow> error + fed_point list" where
  "combine e idx [] ry = Inr []"
| "combine e idx (obs # rest) None = Inl TypeError"
| "combine e idx (obs # rest) (Some ry) =
     (let reversed = rev ry in
      case combine e (Suc idx) rest (Some reversed) of
        Inl err \<Rightarrow> Inl err
      | Inr others \<Rightarrow> Inr (fedPoint e obs (elemAt reversed idx) # others))"

text \<open>\<open>d => d.fedRate && d.realYield\<close> (line 150).\<close>

definition complete :: "fed_point \<Rightarrow> bool" where
  "complete d = (truthy (fedRate d) \<and> truthy (realYield d))"

text \<open>
  Lines 136-158, from the two parsed bodies. Reading \<open>.fedRate\<close> of the last element of
  an empty \<open>combinedData\<close> throws.
\<close>

definition fedFromFred :: "env \<Rightarrow> fred_body \<Rightarrow> fred_body \<Rightarrow> error + fedData" where
  "fedFromFred e dffData realYieldData =
     (if truthy (error_message dffData) \<or> truthy (error_message realYieldData) then Inl ApiError
      else
        (case observations dffData of
           None \<Rightarrow> Inl TypeError
         | Some dff \<Rightarrow>
             (case combine e 0 (rev dff) (observations realYieldData) of
                Inl err \<Rightarrow> Inl err
              | Inr paired \<Rightarrow>
                  (let combinedData = filter complete paired in
                   if combinedData = [] then Inl TypeError
                   else Inr \<lparr>f_lastUpdated = now e,
                             f_source = ''Federal Reserve Economic Data (FRED)'',
                             currentFedRate = fedRate (last combinedData),
                             currentRealYield = realYield (last combinedData),
                             f_data = drop (length combinedData - 180) combinedData\<rparr>))))"

definition updateFedData :: "env \<Rightarrow> world \<Rightarrow> fedData option \<times> world" where
  "updateFedData e w =
     (let w1 = sent (fredUrl e ''DFF'') w in
      case jsonOf (fred e (fredUrl e ''DFF'')) of
        Inl err \<Rightarrow> (None, w1)
      | Inr dffData \<Rightarrow>
          (let w2 = sent (fredUrl e ''DFII10'') w1 in
           case jsonOf (fred e (fredUrl e ''DFII10'')) of
             Inl err \<Rightarrow> (None, w2)
           | Inr realYieldData \<Rightarrow>
               (case fedFromFred e dffData realYieldData of
                  Inl err \<Rightarrow> (None, w2)
                | Inr fedData \<Rightarrow> (Some fedData, w2\<lparr>fed_policy_json := Some fedData\<rparr>))))"

section \<open>3. Dollar index (lines 172-256)\<close>

definition dxyUrl :: "env \<Rightarrow> string" where
  "dxyUrl e =
     ''https://api.twelvedata.com/time_series?symbol=DXY&interval=1day&outputsize=365&apikey=''
       @ undefinedOr (TWELVE_DATA_KEY e)"

definition pairUrl :: "env \<Rightarrow> string \<Rightarrow> string" where
  "pairUrl e pair =
     ''https://api.twelvedata.com/time_series?symbol='' @ pair
       @ ''&interval=1day&outputsize=180&apikey='' @ undefinedOr (TWELVE_DATA_KEY e)"

text \<open>Lines 181-199.\<close>

definition dxyPrimary :: "env \<Rightarrow> td_body response \<Rightarrow> error + dxyData" where
  "dxyPrimary e response =
     (case jsonIfOk response of
        Inl err \<Rightarrow> Inl err
      | Inr data \<Rightarrow>
          if td_status data = Some ''error'' then Inl ApiError
          else
            (case td_values data of
               None \<Rightarrow> Inl TypeError
             | Some vals \<Rightarrow>
                 (case vals of
                    [] \<Rightarrow> Inl TypeError
                  | v0 # _ \<Rightarrow>
                      Inr \<lparr>x_lastUpdated = now e,
                           x_source = ''Twelve Data API'',
                           currentDXY = toFixed (parseFloat (close v0)) 1,
                           x_data =
                             map (\<lambda>d. \<lparr>x_date = formatDate e (datetime d),
                                        dxy = toFixed (parseFloat (close d)) 1\<rparr>)
                               (rev (take 180 vals))\<rparr>)))"

definition pairs :: "string list" where
  "pairs = [''EUR/USD'', ''USD/JPY'', ''GBP/USD'', ''USD/CAD'']"

definition weights :: "(string \<times> real) list" where
  "weights = [(''EUR/USD'', - 0.576), (''USD/JPY'', 0.136), (''GBP/USD'', - 0.119), (''USD/CAD'', 0.091)]"

text \<open>
  \<open>weights[pair]\<close>: the double nearest to the decimal literal of the table; a name that
  is not in the table gives \<open>undefined\<close>, \<open>NaN\<close> in a product.
\<close>

definition weightOf :: "string \<Rightarrow> jsnum" where
  "weightOf pair = (case map_of weights pair of None \<Rightarrow> NaN | Some x \<Rightarrow> toDouble x)"

text \<open>
  The loop of lines 215-222 over the pairs that are left: \<open>pairData\<close> gets an entry for
  each pair whose body has \<open>values\<close>, in the order of the requests.
\<close>

fun fetchPairs ::
  "env \<Rightarrow> string list \<Rightarrow> (string \<times> td_value list) list \<Rightarrow> world
     \<Rightarrow> (error + (string \<times> td_value list) list) \<times> world" where
  "fetchPairs e [] pairData w = (Inr pairData, w)"
| "fetchPairs e (pair # rest) pairData w =
     (let w1 = sent (pairUrl e pair) w in
      case jsonOf (twelveData e (pairUrl e pair)) of
        Inl err \<Rightarrow> (Inl err, w1)
      | Inr json \<Rightarrow>
          fetchPairs e rest
            (case td_values json of None \<Rightarrow> pairData | Some v \<Rightarrow> pairData @ [(pair, v)]) w1)"

text \<open>\<open>Math.min(...)\<close> of the lengths; of no lengths at all it is \<open>Infinity\<close> (\<open>None\<close>).\<close>

fun minOf :: "nat list \<Rightarrow> nat option" where
  "minOf [] = None"
| "minOf (n # ns) = (case minOf ns of None \<Rightarrow> Some n | Some m \<Rightarrow> Some (min n m))"

text \<open>
  \<open>pairs.forEach\<close> of lines 230-233 at position \<open>i\<close>, over the pairs that are left, with
  the sum so far. \<open>pairData[pair][i].close\<close> throws when the pair has no entry or the
  entry has no position \<open>i\<close>.
\<close>

fun weightedSumAt ::
  "(string \<times> td_value list) list \<Rightarrow> nat \<Rightarrow> string list \<Rightarrow> jsnum \<Rightarrow> error + jsnum" where
  "weightedSumAt pairData i [] weightedSum = Inr weightedSum"
| "weightedSumAt pairData i (pair # rest) weightedSum =
     (case map_of pairData pair of
        None \<Rightarrow> Inl TypeError
      | Some vals \<Rightarrow>
          (case elemAt vals i of
             None \<Rightarrow> Inl TypeError
           | Some v \<Rightarrow>
               weightedSumAt pairData i rest
                 (jadd weightedSum (jmul (weightOf pair) (parseFloat (close v))))))"

text \<open>The \<open>for\<close> loop of lines 228-239 from position \<open>i\<close> on; the result is what it pushes.\<close>

function proxyFrom ::
  "env \<Rightarrow> (string \<times> td_value list) list \<Rightarrow> nat \<Rightarrow> nat \<Rightarrow> error + dxy_point list" where
  "proxyFrom e pairData len i =
     (if i < len then
        (case weightedSumAt pairData i pairs (Num 100) of
           Inl err \<Rightarrow> Inl err
         | Inr weightedSum \<Rightarrow>
             (case map_of pairData (pairs ! 0) of
                None \<Rightarrow> Inl TypeError
              | Some vals \<Rightarrow>
                  (case elemAt vals i of
                     None \<Rightarrow> Inl TypeError
                   | Some v \<Rightarrow>
                       (case proxyFrom e pairData len (Suc i) of
                          Inl err \<Rightarrow> Inl err
                        | Inr others \<Rightarrow>
                            Inr (\<lparr>x_date = formatDate e (datetime v),
                                  dxy = toFixed weightedSum 1\<rparr> # others)))))
      else Inr [])"
  by pat_completeness auto

termination
  by (relation "measure (\<lambda>(e, pairData, len, i). len - i)") auto

declare proxyFrom.simps [simp del]

text \<open>
  Lines 225-246, from \<open>pairData\<close>. With no entry at all the bound of the loop is
  \<open>Infinity\<close> and its first round throws on \<open>pairData['EUR/USD']\<close>; with an empty
  \<open>dxyProxy\<close>, \<open>dxyProxy[0].dxy\<close> throws.
\<close>

definition dxyProxyData :: "env \<Rightarrow> (string \<times> td_value list) list \<Rightarrow> error + dxyData" where
  "dxyProxyData e pairData =
     (case minOf (map (\<lambda>(pair, v). length v) pairData) of
        None \<Rightarrow> Inl TypeError
      | Some len \<Rightarrow>
          (case proxyFrom e pairData len 0 of
             Inl err \<Rightarrow> Inl err
           | Inr dxyProxy \<Rightarrow>
               (case dxyProxy of
                  [] \<Rightarrow> Inl TypeError
                | p0 # _ \<Rightarrow>
                    Inr \<lparr>x_lastUpdated = now e,
                         x_source = ''Calculated DXY Proxy'',
                         currentDXY = dxy p0,
                         x_data = rev dxyProxy\<rparr>)))"

definition updateDollarIndex :: "env \<Rightarrow> world \<Rightarrow> dxyData option \<times> world" where
  "updateDollarIndex e w =
     (let w1 = sent (dxyUrl e) w in
      case dxyPrimary e (twelveData e (dxyUrl e)) of
        Inr dxyData \<Rightarrow> (Some dxyData, w1\<lparr>dollar_index_json := Some dxyData\<rparr>)
      | Inl err \<Rightarrow>
          (case fetchPairs e pairs [] w1 of
             (Inl proxyError, w2) \<Rightarrow> (None, w2)
           | (Inr pairData, w2) \<Rightarrow>
               (case dxyProxyData e pairData of
                  Inl proxyError \<Rightarrow> (None, w2)
                | Inr dxyData \<Rightarrow> (Some dxyData, w2\<lparr>dollar_index_json := Some dxyData\<rparr>))))"

section \<open>4. Geopolitical events (lines 261-316)\<close>

text \<open>
  The query is \<open>encodeURIComponent\<close> of the fixed keyword text of line 270, written
  out here.
\<close>

definition newsUrl :: "env \<Rightarrow> string" where
  "newsUrl e =
     ''https://newsapi.org/v2/everything?q=''
       @ ''gold%20OR%20%22Federal%20Reserve%22%20OR%20China%20OR%20geopolitical%20OR%20%22Middle%20East%22%20OR%20tariffs''
       @ ''&sortBy=publishedAt&pageSize=20&apiKey='' @ undefinedOr (NEWS_API_KEY e)"

text \<open>Lines 285-287, on the lower-cased text.\<close>

definition severityOf :: "string \<Rightarrow> severity" where
  "severityOf t =
     (if matchAny t [''war'', ''crisis'', ''attack'', ''collapse'', ''crash''] then High
      else if matchAny t [''tension'', ''concern'', ''risk'', ''warning'', ''threat''] then Medium
      else Low)"

text \<open>
  Lines 289-292. The two patterns are \<open>gold (rises|rally|surge|gains|higher)\<close> and
  \<open>gold (falls|decline|drop|lower)\<close>: the word \<open>gold\<close>, one space, the keyword.
\<close>

definition impactOf :: "string \<Rightarrow> severity \<Rightarrow> impact" where
  "impactOf t sev =
     (if matchAny t [''gold rises'', ''gold rally'', ''gold surge'', ''gold gains'', ''gold higher'']
      then Positive
      else if matchAny t [''gold falls'', ''gold decline'', ''gold drop'', ''gold lower'']
      then Negative
      else if sev = High \<or> sev = Medium then Positive
      else Neutral)"

text \<open>
  The callback of lines 282-301. A \<open>null\<close> title or summary is the text \<open>null\<close> inside
  the concatenation; \<open>publishedAt.split\<close> and \<open>title.substring\<close> throw on \<open>null\<close>.
\<close>

definition toEvent :: "article \<Rightarrow> error + geo_event" where
  "toEvent a =
     (let t = toLowerCase (nullOr (title a) @ '' '' @ nullOr (description a));
          sev = severityOf t;
          imp = impactOf t sev
      in case publishedAt a of
           None \<Rightarrow> Inl TypeError
         | Some published \<Rightarrow>
             (case title a of
                None \<Rightarrow> Inl TypeError
              | Some headline \<Rightarrow>
                  Inr \<lparr>e_date = beforeT published,
                       event = take 120 headline,
                       e_severity = sev,
                       e_impact = imp,
                       e_url = url a\<rparr>))"

text \<open>\<open>data.articles.map(...)\<close>: the first throwing call ends the whole map.\<close>

fun toEvents :: "article list \<Rightarrow> error + geo_event list" where
  "toEvents [] = Inr []"
| "toEvents (a # rest) =
     (case toEvent a of
        Inl err \<Rightarrow> Inl err
      | Inr ev \<Rightarrow> (case toEvents rest of Inl err \<Rightarrow> Inl err | Inr evs \<Rightarrow> Inr (ev # evs)))"

text \<open>Lines 275-307, from the response.\<close>

definition geoFromNews :: "env \<Rightarrow> news_body response \<Rightarrow> error + geoData" where
  "geoFromNews e response =
     (case jsonOf response of
        Inl err \<Rightarrow> Inl err
      | Inr data \<Rightarrow>
          if news_status data = Some ''error'' then Inl ApiError
          else
            (case articles data of
               None \<Rightarrow> Inl TypeError
             | Some arts \<Rightarrow>
                 (case toEvents arts of
                    Inl err \<Rightarrow> Inl err
                  | Inr evs \<Rightarrow>
                      Inr \<lparr>n_lastUpdated = now e, n_source = ''NewsAPI'',
                           events = take 15 evs\<rparr>)))"

definition updateGeopoliticalEvents :: "env \<Rightarrow> world \<Rightarrow> geoData option \<times> world" where
  "updateGeopoliticalEvents e w =
     (if \<not> truthy (NEWS_API_KEY e) then (None, w)
      else
        (let w1 = sent (newsUrl e) w in
         case geoFromNews e (newsApi e (newsUrl e)) of
           Inl err \<Rightarrow> (None, w1)
         | Inr geoData \<Rightarrow> (Some geoData, w1\<lparr>geopolitical_events_json := Some geoData\<rparr>)))"

section \<open>Main (lines 332-374)\<close>

record results =
  goldPrice :: "goldData option"
  fedPolicy :: "fedData option"
  dollarIndex :: "dxyData option"
  geopolitical :: "geoData option"

text \<open>\<open>Object.values(results).filter(v => v).length\<close>: an object is truthy, \<open>null\<close> is not.\<close>

definition successCount :: "results \<Rightarrow> nat" where
  "successCount r =
     length (filter (\<lambda>v. v)
       [goldPrice r \<noteq> None, fedPolicy r \<noteq> None, dollarIndex r \<noteq> None, geopolitical r \<noteq> None])"

text \<open>
  One run: the four tasks in turn, each on the world the one before left (the waits
  between them change nothing that is modelled). The result is the exit code of the
  process, the four outcomes and the world at the end. \<open>process.exit(1)\<close> is called
  when nothing succeeded; otherwise \<open>main\<close> returns and the process ends with 0.
\<close>

definition main :: "env \<Rightarrow> world \<Rightarrow> nat \<times> results \<times> world" where
  "main e w =
     (case updateGoldPrice e w of (g, w1) \<Rightarrow>
      case updateFedData e w1 of (f, w2) \<Rightarrow>
      case updateDollarIndex e w2 of (d, w3) \<Rightarrow>
      case updateGeopoliticalEvents e w3 of (n, w4) \<Rightarrow>
        (let r = \<lparr>goldPrice = g, fedPolicy = f, dollarIndex = d, geopolitical = n\<rparr>
         in (if successCount r = 0 then 1 else 0, r, w4)))"

definition exitCode :: "nat \<times> results \<times> world \<Rightarrow> nat" where
  "exitCode run = fst run"

definition outcomes :: "nat \<times> results \<times> world \<Rightarrow> results" where
  "outcomes run = fst (snd run)"

definition finalWorld :: "nat \<times> results \<times> world \<Rightarrow> world" where
  "finalWorld run = snd (snd run)"

text \<open>The world before the run: nothing requested, nothing written.\<close>

definition emptyWorld :: world where
  "emptyWorld = \<lparr>requests = [], gold_price_json = None, fed_policy_json = None,
                  dollar_index_json = None, geopolitical_events_json = None\<rparr>"

section \<open>What the providers sent, and the form of a date\<close>

text \<open>The date texts of a response, as the provider wrote them.\<close>

definition tdDays :: "td_body response \<Rightarrow> string list" where
  "tdDays r =
     (case jsonOf r of
        Inl err \<Rightarrow> []
      | Inr b \<Rightarrow> (case td_values b of None \<Rightarrow> [] | Some vals \<Rightarrow> map datetime vals))"

definition avDays :: "av_body response \<Rightarrow> string list" where
  "avDays r =
     (case jsonOf r of
        Inl err \<Rightarrow> []
      | Inr b \<Rightarrow> (case av_series b of None \<Rightarrow> [] | Some ts \<Rightarrow> map fst ts))"

definition fredDays :: "fred_body response \<Rightarrow> string list" where
  "fredDays r =
     (case jsonOf r of
        Inl err \<Rightarrow> []
      | Inr b \<Rightarrow> (case observations b of None \<Rightarrow> [] | Some obs \<Rightarrow> map obs_date obs))"

text \<open>
  A valid date with a year of four digits. (The getters of a valid date always give a
  month index below 12 and a day of the month from 1 to 31.)
\<close>

fun fourDigitDay :: "jsdate \<Rightarrow> bool" where
  "fourDigitDay InvalidDate = False"
| "fourDigitDay (Date y m d) = (1000 \<le> y \<and> y \<le> 9999 \<and> m < 12 \<and> 1 \<le> d \<and> d \<le> 31)"

text \<open>
  The form the specification gives for a persisted date, \<open><3-letter month> <day>,
  <4-digit year>\<close> as in \<open>Jan 15, 2024\<close>: one of the twelve month names, a space, one or
  two digits, a comma and a space, four digits.
\<close>

definition specDateShape :: "string \<Rightarrow> bool" where
  "specDateShape s =
     (case s of
        a # b # c # sp # rest \<Rightarrow>
          [a, b, c] \<in> set months \<and> sp = CHR '' ''
          \<and> (let day = takeWhile isDigit rest; r = dropWhile isDigit rest
              in (length day = 1 \<or> length day = 2) \<and> take 2 r = '', ''
                 \<and> length (drop 2 r) = 4 \<and> list_all isDigit (drop 2 r))
      | _ \<Rightarrow> False)"

section \<open>Example runs\<close>

text \<open>
  Concrete environments for the runs evaluated below. All four keys are set except the
  optional news key; in \<open>offline\<close> every request is rejected.
\<close>

text \<open>
  A reading of date texts for the sample runs. A valid \<open>YYYY-MM-DD\<close> is that calendar
  day: the language reads the form as midnight UTC, and on a machine on UTC (the
  script's header says it runs in GitHub Actions) the getters give the day that was
  written. Every other text is read as the invalid date here. The platform reads more
  forms (date-times, and a day past the end of a month, which it rolls over); none of
  them occurs in the sample payloads, whose only other date text is \<open>n/a\<close>.
\<close>

definition leapYear :: "nat \<Rightarrow> bool" where
  "leapYear y = (y mod 4 = 0 \<and> (y mod 100 \<noteq> 0 \<or> y mod 400 = 0))"

definition daysInMonth :: "nat \<Rightarrow> nat \<Rightarrow> nat" where
  "daysInMonth y m =
     (if m = 2 then (if leapYear y then 29 else 28)
      else if m \<in> {4, 6, 9, 11} then 30 else 31)"

definition utcDay :: "string \<Rightarrow> jsdate" where
  "utcDay s =
     (if length s = 10 \<and> s ! 4 = CHR ''-'' \<and> s ! 7 = CHR ''-''
         \<and> list_all isDigit (take 4 s) \<and> list_all isDigit (take 2 (drop 5 s))
         \<and> list_all isDigit (drop 8 s)
      then
        (let y = digitsVal (take 4 s); m = digitsVal (take 2 (drop 5 s)); d = digitsVal (drop 8 s)
         in if 1 \<le> m \<and> m \<le> 12 \<and> 1 \<le> d \<and> d \<le> daysInMonth y m then Date (int y) (m - 1) d
            else InvalidDate)
      else InvalidDate)"

definition offline :: env where
  "offline =
     \<lparr>ALPHA_VANTAGE_KEY = Some ''av'', FRED_KEY = Some ''fr'', TWELVE_DATA_KEY = Some ''td'',
      NEWS_API_KEY = None,
      twelveData = (\<lambda>u. Rejected), alphaVantage = (\<lambda>u. Rejected), fred = (\<lambda>u. Rejected),
      newsApi = (\<lambda>u. Rejected), newDate = utcDay, now = ''2024-01-16T06:00:00.000Z''\<rparr>"

definition goldFeed :: td_body where
  "goldFeed =
     \<lparr>td_status = Some ''ok'',
      td_values = Some [\<lparr>datetime = ''2024-01-16'', close = ''2034.56000''\<rparr>,
                        \<lparr>datetime = ''2024-01-15'', close = ''2029.40000''\<rparr>]\<rparr>"

definition goldOnly :: env where
  "goldOnly =
     offline\<lparr>twelveData :=
       (\<lambda>u. if u = goldUrl offline then Response True (Some goldFeed) else Rejected)\<rparr>"

definition fxFeed :: av_body where
  "fxFeed = \<lparr>av_error = None,
             av_series = Some [(''2024-01-16'', ''2034.56000''), (''2024-01-15'', ''2029.40000'')]\<rparr>"

definition fallbackOnly :: env where
  "fallbackOnly = offline\<lparr>alphaVantage := (\<lambda>u. Response True (Some fxFeed))\<rparr>"

definition story :: "string \<Rightarrow> article" where
  "story day =
     \<lparr>title = Some ''Gold steady'', description = None,
      publishedAt = Some (day @ ''T08:00:00Z''), url = Some ''https://example.org/gold''\<rparr>"

definition newsFeed :: news_body where
  "newsFeed =
     \<lparr>news_status = Some ''ok'',
      articles = Some (map story
        [''2024-01-16'', ''2024-01-15'', ''2024-01-14'', ''2024-01-13'', ''2024-01-12'',
         ''2024-01-11'', ''2024-01-10'', ''2024-01-09'', ''2024-01-08'', ''2024-01-07'',
         ''2024-01-06'', ''2024-01-05'', ''2024-01-04'', ''2024-01-03'', ''2024-01-02'',
         ''2024-01-01'', ''2023-12-31''])\<rparr>"

definition newsOnly :: env where
  "newsOnly = offline\<lparr>NEWS_API_KEY := Some ''nk'', newsApi := (\<lambda>u. Response True (Some newsFeed))\<rparr>"

definition emptySeries :: env where
  "emptySeries =
     goldOnly\<lparr>twelveData := (\<lambda>u. Rejected),
              alphaVantage := (\<lambda>u. Response True (Some \<lparr>av_error = None, av_series = Some []\<rparr>))\<rparr>"

definition holidayFed :: fred_body where
  "holidayFed =
     \<lparr>error_message = None,
      observations = Some [\<lparr>obs_date = ''2024-01-15'', obs_value = ''.''\<rparr>,
                           \<lparr>obs_date = ''2024-01-14'', obs_value = ''.''\<rparr>]\<rparr>"

definition holidayYield :: fred_body where
  "holidayYield =
     \<lparr>error_message = None,
      observations = Some [\<lparr>obs_date = ''2024-01-15'', obs_value = ''1.90''\<rparr>,
                           \<lparr>obs_date = ''2024-01-14'', obs_value = ''.''\<rparr>]\<rparr>"

definition holidays :: env where
  "holidays =
     goldOnly\<lparr>fred := (\<lambda>u. if u = fredUrl offline ''DFF'' then Response True (Some holidayFed)
                             else Response True (Some holidayYield))\<rparr>"

definition eurValues :: "td_value list" where
  "eurValues = [\<lparr>datetime = ''2024-01-16'', close = ''1.0900''\<rparr>,
                \<lparr>datetime = ''2024-01-15'', close = ''1.0850''\<rparr>]"

definition jpyValues :: "td_value list" where
  "jpyValues = [\<lparr>datetime = ''2024-01-16'', close = ''148.20''\<rparr>,
                \<lparr>datetime = ''2024-01-15'', close = ''140.00''\<rparr>,
                \<lparr>datetime = ''2024-01-12'', close = ''139.50''\<rparr>]"

definition gbpValues :: "td_value list" where
  "gbpValues = [\<lparr>datetime = ''2024-01-16'', close = ''1.2700''\<rparr>,
                \<lparr>datetime = ''2024-01-15'', close = ''1.2650''\<rparr>]"

definition cadValues :: "td_value list" where
  "cadValues = [\<lparr>datetime = ''2024-01-16'', close = ''1.3500''\<rparr>,
                \<lparr>datetime = ''2024-01-15'', close = ''1.3450''\<rparr>]"

definition pairFeed :: "td_value list \<Rightarrow> td_body" where
  "pairFeed vals = \<lparr>td_status = Some ''ok'', td_values = Some vals\<rparr>"

definition fourPairs :: env where
  "fourPairs =
     offline\<lparr>twelveData :=
       (\<lambda>u. if u = pairUrl offline ''EUR/USD'' then Response True (Some (pairFeed eurValues))
              else if u = pairUrl offline ''USD/JPY'' then Response True (Some (pairFeed jpyValues))
              else if u = pairUrl offline ''GBP/USD'' then Response True (Some (pairFeed gbpValues))
              else if u = pairUrl offline ''USD/CAD'' then Response True (Some (pairFeed cadValues))
              else Rejected)\<rparr>"

definition fredFeed :: "(string \<times> string) list \<Rightarrow> fred_body" where
  "fredFeed days =
     \<lparr>error_message = None,
      observations = Some (map (\<lambda>(day, v). \<lparr>obs_date = day, obs_value = v\<rparr>) days)\<rparr>"

definition twoDays :: env where
  "twoDays =
     offline\<lparr>fred :=
       (\<lambda>u. if u = fredUrl offline ''DFF''
                then Response True (Some (fredFeed [(''2024-01-16'', ''5.33''), (''2024-01-15'', ''5.30'')]))
              else if u = fredUrl offline ''DFII10''
                then Response True (Some (fredFeed [(''2024-01-16'', ''2.00''), (''2024-01-15'', ''1.90'')]))
              else Rejected)\<rparr>"

definition fourDays :: env where
  "fourDays =
     offline\<lparr>fred :=
       (\<lambda>u. if u = fredUrl offline ''DFF''
                then Response True (Some (fredFeed [(''2024-01-18'', ''5.34''), (''2024-01-17'', ''5.33''),
                                                    (''2024-01-16'', ''5.32''), (''2024-01-15'', ''5.31'')]))
              else if u = fredUrl offline ''DFII10''
                then Response True (Some (fredFeed [(''2024-01-18'', ''2.04''), (''2024-01-17'', ''2.03''),
                                                    (''2024-01-16'', ''.''), (''2024-01-15'', ''2.01'')]))
              else Rejected)\<rparr>"

definition oneStory :: env where
  "oneStory =
     offline\<lparr>NEWS_API_KEY := Some ''nk'',
              newsApi := (\<lambda>u. Response True
                (Some \<lparr>news_status = Some ''ok'', articles = Some [story ''2024-01-15'']\<rparr>))\<rparr>"

definition allUp :: env where
  "allUp =
     offline\<lparr>NEWS_API_KEY := Some ''nk'',
              twelveData := (\<lambda>u. Response True (Some goldFeed)),
              fred := fred twoDays,
              newsApi := newsApi oneStory\<rparr>"

definition oddDates :: env where
  "oddDates =
     offline\<lparr>twelveData :=
       (\<lambda>u. Response True
          (Some \<lparr>td_status = Some ''ok'',
                 td_values = Some [\<lparr>datetime = ''n/a'', close = ''2034.50''\<rparr>,
                                   \<lparr>datetime = ''0999-12-31'', close = ''2029.25''\<rparr>]\<rparr>))\<rparr>"

section \<open>Evaluation and shared lemmas\<close>

text \<open>The definitions of the runtime, for evaluating a run on a concrete payload.\<close>

lemmas dbl = toDouble_def finiteOrInfinite_def quantize_def roundHalfEven_def tieToEven_def
  binExp_def expDown_def pow2_def expUp.simps

lemmas runtime_defs = parseFloat_def parseMagnitude_def parseUnsigned_def exponentOf_def scale10_def
  isDigit_def isSpace_def digitsVal_def digitVal_def padZeros_def pointBefore_def showNat.simps
  showInt_def toLowerCase_def toLowerChar_def matchAny_def beforeT_def formatDate_def monthName_def
  months_def Let_def dbl

lemmas exponent_defs = largeToString_def shortestFrom.simps digitCount.simps shortestAt_def
  digitsAt_def nearer_def roundsTo_def exponentForm_def stripZeros_def

lemmas calendar_defs = utcDay_def leapYear_def daysInMonth_def

text \<open>
  The arithmetic on some known values: \<open>0.1\<close> as a double, \<open>0.1 + 0.2\<close>, a tie between
  two doubles going to the even one, and \<open>toFixed\<close> on the double nearest to \<open>103.35\<close>,
  which lies below it, and on numbers that print in exponent form.
\<close>

lemma double_examples:
  "toDouble 0.1 = Num (3602879701896397 / 36028797018963968)"
  "jadd (toDouble 0.1) (toDouble 0.2) = Num (1351079888211149 / 4503599627370496)"
  "toDouble (2 ^ 53 + 1) = Num (2 ^ 53)"
  "toDouble (2 ^ 53 + 3) = Num (2 ^ 53 + 4)"
  "parseFloat ''-Infinity'' = NegInfinity"
  "toFixed (parseFloat ''103.35'') 1 = ''103.3''"
  "toFixed (parseFloat ''1e21'') 2 = ''1e+21''"
  "toFixed (parseFloat ''-1e23'') 1 = ''-1e+23''"
  by (simp_all add: runtime_defs exponent_defs)

lemma round_nearest:
  fixes x :: real
  shows "\<bar>of_int \<lfloor>x + 1 / 2\<rfloor> - x\<bar> \<le> 1 / 2" and "0 \<le> x \<Longrightarrow> 0 \<le> \<lfloor>x + 1 / 2\<rfloor>"
  by linarith+

lemma goldPrimary_ok:
  assumes "td_status data \<noteq> Some ''error''" and "td_values data = Some vals" and "vals \<noteq> []"
  shows "goldPrimary e (Response True (Some data)) =
           Inr \<lparr>g_lastUpdated = now e, currentPrice = parseFloat (close (hd vals)),
                g_source = ''Twelve Data API'',
                history = map (\<lambda>d. \<lparr>p_date = formatDate e (datetime d),
                                      price = mathRound (parseFloat (close d))\<rparr>)
                            (rev (take 180 vals))\<rparr>"
  using assms by (cases vals) (simp_all add: goldPrimary_def)

lemma goldPrimary_fails:
  "goldPrimary e Rejected = Inl FetchFailed"
  "goldPrimary e (Response False body) = Inl ApiError"
  "td_status data = Some ''error'' \<Longrightarrow> goldPrimary e (Response True (Some data)) = Inl ApiError"
  by (simp_all add: goldPrimary_def)

lemma goldFallback_ok:
  assumes "\<not> truthy (av_error fb)" and "av_series fb = Some ts" and "ts \<noteq> []"
  shows "\<exists>g. goldFallback e (Response ok (Some fb)) = Inr g
           \<and> g_source g = ''Alpha Vantage API (fallback)''
           \<and> history g = map (\<lambda>(date, close4). \<lparr>p_date = formatDate e date,
                                                  price = mathRound (parseFloat close4)\<rparr>)
                            (rev (take 180 ts))
           \<and> history g \<noteq> []
           \<and> currentPrice g = price (last (history g))"
  using assms by (cases ts) (simp_all add: goldFallback_def Let_def)

section \<open>Gold price: the primary provider\<close>

text \<open>
  C4. When the primary price provider answers with success (an \<open>ok\<close> response whose
  body has no error status and a non-empty \<open>values\<close> array, newest first), the task
  succeeds and writes what it returns; the current price is the close of the first
  element; the history is the latest 180 points, at most, in chronological order; and
  every price of the history is the close rounded to the nearest integer, which is not
  negative when the close is not.
\<close>

theorem updateGoldPrice_primary:
  assumes "twelveData e (goldUrl e) = Response True (Some data)"
      and "td_status data \<noteq> Some ''error''"
      and "td_values data = Some vals" and "vals \<noteq> []"
  shows "\<exists>g. updateGoldPrice e w = (Some g, (sent (goldUrl e) w)\<lparr>gold_price_json := Some g\<rparr>)
           \<and> g_source g = ''Twelve Data API''
           \<and> currentPrice g = parseFloat (close (hd vals))
           \<and> history g = map (\<lambda>d. \<lparr>p_date = formatDate e (datetime d),
                                      price = mathRound (parseFloat (close d))\<rparr>)
                            (rev (take 180 vals))
           \<and> length (history g) = min 180 (length vals)
           \<and> length (history g) \<le> 180
           \<and> (\<forall>i < length (history g). \<forall>x.
                 parseFloat (close (rev (take 180 vals) ! i)) = Num x \<longrightarrow>
                   (\<exists>k::int. price (history g ! i) = Num (of_int k)
                       \<and> \<bar>of_int k - x\<bar> \<le> 1 / 2 \<and> (0 \<le> x \<longrightarrow> 0 \<le> k)))"
proof -
  let ?g = "\<lparr>g_lastUpdated = now e, currentPrice = parseFloat (close (hd vals)),
                g_source = ''Twelve Data API'',
                history = map (\<lambda>d. \<lparr>p_date = formatDate e (datetime d),
                                      price = mathRound (parseFloat (close d))\<rparr>)
                            (rev (take 180 vals))\<rparr>"
  have run: "updateGoldPrice e w = (Some ?g, (sent (goldUrl e) w)\<lparr>gold_price_json := Some ?g\<rparr>)"
    using goldPrimary_ok [OF assms(2,3,4), of e] assms(1)
    by (simp add: updateGoldPrice_def Let_def)
  have len: "length (history ?g) = min 180 (length vals)"
    by (simp add: min.commute)
  have rounded: "\<exists>k::int. price (history ?g ! i) = Num (of_int k)
                       \<and> \<bar>of_int k - x\<bar> \<le> 1 / 2 \<and> (0 \<le> x \<longrightarrow> 0 \<le> k)"
    if "i < length (history ?g)" and "parseFloat (close (rev (take 180 vals) ! i)) = Num x" for i x
  proof -
    have "price (history ?g ! i) = Num (of_int \<lfloor>x + 1 / 2\<rfloor>)"
      using that by simp
    then show ?thesis
      using round_nearest [of x] by blast
  qed
  show ?thesis
    using run len rounded by (intro exI [of _ ?g]) simp
qed

theorem updateGoldPrice_primary_witness:
  "\<exists>g. updateGoldPrice goldOnly emptyWorld
          = (Some g, (sent (goldUrl goldOnly) emptyWorld)\<lparr>gold_price_json := Some g\<rparr>)
       \<and> g_source g = ''Twelve Data API''
       \<and> currentPrice g = Num (4474044754815877 / 2199023255552)
       \<and> history g = [\<lparr>p_date = ''Jan 15, 2024'', price = Num 2029\<rparr>,
                       \<lparr>p_date = ''Jan 16, 2024'', price = Num 2035\<rparr>]"
proof -
  let ?vals = "[\<lparr>datetime = ''2024-01-16'', close = ''2034.56000''\<rparr>,
                \<lparr>datetime = ''2024-01-15'', close = ''2029.40000''\<rparr>]"
  have u: "goldUrl goldOnly = goldUrl offline"
    by (simp add: goldOnly_def goldUrl_def)
  have h1: "twelveData goldOnly (goldUrl goldOnly) = Response True (Some goldFeed)"
    by (simp add: u) (simp add: goldOnly_def)
  have h2: "td_status goldFeed \<noteq> Some ''error''"
    by (simp add: goldFeed_def)
  have h3: "td_values goldFeed = Some ?vals"
    by (simp add: goldFeed_def)
  have h4: "?vals \<noteq> []"
    by simp
  have e1: "parseFloat ''2034.56000'' = Num (4474044754815877 / 2199023255552)"
    by (simp add: runtime_defs)
  have e2: "mathRound (parseFloat ''2034.56000'') = Num 2035"
    by (simp add: runtime_defs)
  have e3: "mathRound (parseFloat ''2029.40000'') = Num 2029"
    by (simp add: runtime_defs)
  have e4: "formatDate goldOnly ''2024-01-15'' = ''Jan 15, 2024''"
    "formatDate goldOnly ''2024-01-16'' = ''Jan 16, 2024''"
    by (simp_all add: goldOnly_def offline_def runtime_defs calendar_defs)
  from updateGoldPrice_primary [OF h1 h2 h3 h4, of emptyWorld]
  obtain g where g: "updateGoldPrice goldOnly emptyWorld
          = (Some g, (sent (goldUrl goldOnly) emptyWorld)\<lparr>gold_price_json := Some g\<rparr>)"
      "g_source g = ''Twelve Data API''" "currentPrice g = parseFloat (close (hd ?vals))"
      "history g = map (\<lambda>d. \<lparr>p_date = formatDate goldOnly (datetime d),
                                      price = mathRound (parseFloat (close d))\<rparr>)
                            (rev (take 180 ?vals))"
    by blast
  show ?thesis
    using g by (intro exI [of _ g]) (simp add: e1 e2 e3 e4)
qed

section \<open>Gold price: the fallback provider\<close>

text \<open>
  C5. When the primary price request fails (the request is rejected, the response is
  not \<open>ok\<close>, or its body has the error status) and the fallback provider answers with a
  non-empty series and no error message, the record set that is returned and written
  to \<open>gold-price.json\<close> has the fallback's label as its source, never the primary's,
  and its current price is the price of the last point of its history.
\<close>

theorem updateGoldPrice_fallback:
  assumes "twelveData e (goldUrl e) = Rejected
           \<or> (\<exists>body. twelveData e (goldUrl e) = Response False body)
           \<or> (\<exists>data. twelveData e (goldUrl e) = Response True (Some data)
                 \<and> td_status data = Some ''error'')"
      and "alphaVantage e (goldFallbackUrl e) = Response ok (Some fb)"
      and "\<not> truthy (av_error fb)"
      and "av_series fb = Some ts" and "ts \<noteq> []"
  shows "\<exists>g. updateGoldPrice e w
               = (Some g, (sent (goldFallbackUrl e) (sent (goldUrl e) w))\<lparr>gold_price_json := Some g\<rparr>)
           \<and> gold_price_json (snd (updateGoldPrice e w)) = Some g
           \<and> g_source g = ''Alpha Vantage API (fallback)''
           \<and> g_source g \<noteq> ''Twelve Data API''
           \<and> history g = map (\<lambda>(date, close4). \<lparr>p_date = formatDate e date,
                                                  price = mathRound (parseFloat close4)\<rparr>)
                            (rev (take 180 ts))
           \<and> history g \<noteq> []
           \<and> currentPrice g = price (last (history g))"
proof -
  from assms(1) obtain err where primary: "goldPrimary e (twelveData e (goldUrl e)) = Inl err"
    using goldPrimary_fails by metis
  from goldFallback_ok [OF assms(3,4,5), of e ok]
  obtain g where g: "goldFallback e (Response ok (Some fb)) = Inr g"
      "g_source g = ''Alpha Vantage API (fallback)''"
      "history g = map (\<lambda>(date, close4). \<lparr>p_date = formatDate e date,
                                                  price = mathRound (parseFloat close4)\<rparr>)
                            (rev (take 180 ts))"
      "history g \<noteq> []" "currentPrice g = price (last (history g))"
    by blast
  have "updateGoldPrice e w
          = (Some g, (sent (goldFallbackUrl e) (sent (goldUrl e) w))\<lparr>gold_price_json := Some g\<rparr>)"
    using primary g(1) assms(2) by (simp add: updateGoldPrice_def Let_def)
  then show ?thesis
    using g by (intro exI [of _ g]) simp
qed

theorem updateGoldPrice_fallback_witness:
  "\<exists>g. updateGoldPrice fallbackOnly emptyWorld
          = (Some g, (sent (goldFallbackUrl fallbackOnly) (sent (goldUrl fallbackOnly) emptyWorld))
                       \<lparr>gold_price_json := Some g\<rparr>)
       \<and> g_source g = ''Alpha Vantage API (fallback)''
       \<and> history g = [\<lparr>p_date = ''Jan 15, 2024'', price = Num 2029\<rparr>,
                       \<lparr>p_date = ''Jan 16, 2024'', price = Num 2035\<rparr>]
       \<and> currentPrice g = Num 2035"
proof -
  let ?ts = "[(''2024-01-16'', ''2034.56000''), (''2024-01-15'', ''2029.40000'')]"
  have h1: "twelveData fallbackOnly (goldUrl fallbackOnly) = Rejected
           \<or> (\<exists>body. twelveData fallbackOnly (goldUrl fallbackOnly) = Response False body)
           \<or> (\<exists>data. twelveData fallbackOnly (goldUrl fallbackOnly) = Response True (Some data)
                 \<and> td_status data = Some ''error'')"
    by (simp add: fallbackOnly_def offline_def)
  have h2: "alphaVantage fallbackOnly (goldFallbackUrl fallbackOnly) = Response True (Some fxFeed)"
    by (simp add: fallbackOnly_def)
  have h3: "\<not> truthy (av_error fxFeed)" and h4: "av_series fxFeed = Some ?ts" and h5: "?ts \<noteq> []"
    by (simp_all add: fxFeed_def)
  have e2: "mathRound (parseFloat ''2034.56000'') = Num 2035"
    by (simp add: runtime_defs)
  have e3: "mathRound (parseFloat ''2029.40000'') = Num 2029"
    by (simp add: runtime_defs)
  have e4: "formatDate fallbackOnly ''2024-01-15'' = ''Jan 15, 2024''"
    "formatDate fallbackOnly ''2024-01-16'' = ''Jan 16, 2024''"
    by (simp_all add: fallbackOnly_def offline_def runtime_defs calendar_defs)
  from updateGoldPrice_fallback [OF h1 h2 h3 h4 h5, of emptyWorld]
  obtain g where g: "updateGoldPrice fallbackOnly emptyWorld
          = (Some g, (sent (goldFallbackUrl fallbackOnly) (sent (goldUrl fallbackOnly) emptyWorld))
                       \<lparr>gold_price_json := Some g\<rparr>)"
      "g_source g = ''Alpha Vantage API (fallback)''"
      "history g = map (\<lambda>(date, close4). \<lparr>p_date = formatDate fallbackOnly date,
                                                  price = mathRound (parseFloat close4)\<rparr>)
                            (rev (take 180 ?ts))"
      "currentPrice g = price (last (history g))"
    by blast
  show ?thesis
    using g by (intro exI [of _ g]) (simp add: e2 e3 e4)
qed
section \<open>The run\<close>

subsection \<open>The outcome of a task does not depend on the world it starts from\<close>

lemma updateGoldPrice_outcome: "fst (updateGoldPrice e w) = fst (updateGoldPrice e w')"
  by (simp add: updateGoldPrice_def Let_def split: sum.splits)

lemma updateFedData_outcome: "fst (updateFedData e w) = fst (updateFedData e w')"
  by (simp add: updateFedData_def Let_def split: sum.splits)

lemma fetchPairs_outcome: "fst (fetchPairs e ps pd w) = fst (fetchPairs e ps pd w')"
  by (induction ps arbitrary: pd w w') (simp_all add: Let_def split: sum.splits)

lemma updateDollarIndex_outcome: "fst (updateDollarIndex e w) = fst (updateDollarIndex e w')"
proof -
  have "fst (fetchPairs e pairs [] (sent (dxyUrl e) w)) = fst (fetchPairs e pairs [] (sent (dxyUrl e) w'))"
    by (rule fetchPairs_outcome)
  then show ?thesis
    by (cases "fetchPairs e pairs [] (sent (dxyUrl e) w)"; cases "fetchPairs e pairs [] (sent (dxyUrl e) w')")
       (simp add: updateDollarIndex_def Let_def split: sum.splits)
qed

lemma updateGeopoliticalEvents_outcome:
  "fst (updateGeopoliticalEvents e w) = fst (updateGeopoliticalEvents e w')"
  by (simp add: updateGeopoliticalEvents_def Let_def split: sum.splits)

lemma main_unfold:
  "main e w =
     (let w1 = snd (updateGoldPrice e w); w2 = snd (updateFedData e w1);
          w3 = snd (updateDollarIndex e w2); w4 = snd (updateGeopoliticalEvents e w3);
          r = \<lparr>goldPrice = fst (updateGoldPrice e w), fedPolicy = fst (updateFedData e w),
               dollarIndex = fst (updateDollarIndex e w),
               geopolitical = fst (updateGeopoliticalEvents e w)\<rparr>
      in (if successCount r = 0 then 1 else 0, r, w4))"
proof -
  obtain g w1 where g: "updateGoldPrice e w = (g, w1)" by (cases "updateGoldPrice e w")
  obtain f w2 where f: "updateFedData e w1 = (f, w2)" by (cases "updateFedData e w1")
  obtain d w3 where d: "updateDollarIndex e w2 = (d, w3)" by (cases "updateDollarIndex e w2")
  obtain n w4 where n: "updateGeopoliticalEvents e w3 = (n, w4)"
    by (cases "updateGeopoliticalEvents e w3")
  have f': "fst (updateFedData e w) = f"
    using updateFedData_outcome [of e w w1] f by simp
  have d': "fst (updateDollarIndex e w) = d"
    using updateDollarIndex_outcome [of e w w2] d by simp
  have n': "fst (updateGeopoliticalEvents e w) = n"
    using updateGeopoliticalEvents_outcome [of e w w3] n by simp
  show ?thesis
    by (simp add: main_def g f d n f' d' n' Let_def)
qed

lemma successCount_zero:
  "successCount r = 0 \<longleftrightarrow>
     goldPrice r = None \<and> fedPolicy r = None \<and> dollarIndex r = None \<and> geopolitical r = None"
  by (simp add: successCount_def)

text \<open>
  C3. The four outcomes of a run are those of the four tasks. The run exits with code 0
  exactly when at least one of the four sources produced a record set, and with code 1
  exactly when all four failed: a run with some sources down ends normally.
\<close>

theorem main_exit_code:
  "outcomes (main e w) =
     \<lparr>goldPrice = fst (updateGoldPrice e w), fedPolicy = fst (updateFedData e w),
      dollarIndex = fst (updateDollarIndex e w), geopolitical = fst (updateGeopoliticalEvents e w)\<rparr>
   \<and> (exitCode (main e w) = 0 \<longleftrightarrow>
         fst (updateGoldPrice e w) \<noteq> None \<or> fst (updateFedData e w) \<noteq> None
         \<or> fst (updateDollarIndex e w) \<noteq> None \<or> fst (updateGeopoliticalEvents e w) \<noteq> None)
   \<and> (exitCode (main e w) = 1 \<longleftrightarrow>
         fst (updateGoldPrice e w) = None \<and> fst (updateFedData e w) = None
         \<and> fst (updateDollarIndex e w) = None \<and> fst (updateGeopoliticalEvents e w) = None)"
  by (simp add: main_unfold Let_def outcomes_def exitCode_def successCount_zero)

lemma offline_fails:
  "fst (updateGoldPrice offline w) = None" "fst (updateFedData offline w) = None"
  "fst (updateDollarIndex offline w) = None" "fst (updateGeopoliticalEvents offline w) = None"
  by (simp_all add: updateGoldPrice_def updateFedData_def updateDollarIndex_def
        updateGeopoliticalEvents_def goldPrimary_def goldFallback_def dxyPrimary_def pairs_def
        offline_def Let_def)

theorem main_exit_code_witness:
  "exitCode (main offline emptyWorld) = 1 \<and> exitCode (main goldOnly emptyWorld) = 0"
proof -
  have "fst (updateGoldPrice goldOnly emptyWorld) \<noteq> None"
    by (simp add: updateGoldPrice_def goldPrimary_def goldOnly_def goldUrl_def goldFeed_def Let_def
          offline_def)
  then show ?thesis
    using main_exit_code [of offline emptyWorld] main_exit_code [of goldOnly emptyWorld]
      offline_fails [of emptyWorld]
    by simp
qed

section \<open>Events\<close>

lemma toEvents_length: "toEvents arts = Inr evs \<Longrightarrow> length evs = length arts"
  by (induction arts arbitrary: evs) (auto split: sum.splits)

lemma toEvents_nth:
  "toEvents arts = Inr evs \<Longrightarrow> i < length arts \<Longrightarrow> toEvent (arts ! i) = Inr (evs ! i)"
proof (induction arts arbitrary: evs i)
  case Nil
  then show ?case by simp
next
  case (Cons a arts)
  then show ?case
    by (cases i) (auto split: sum.splits)
qed

lemma fetchPairs_news:
  "fetchPairs (e\<lparr>NEWS_API_KEY := k, newsApi := n\<rparr>) ps pd w = fetchPairs e ps pd w"
  by (induction ps arbitrary: pd w) (simp_all add: pairUrl_def Let_def split: sum.splits)

lemma urls_ignore_news:
  "goldUrl (e\<lparr>NEWS_API_KEY := k, newsApi := n\<rparr>) = goldUrl e"
  "goldFallbackUrl (e\<lparr>NEWS_API_KEY := k, newsApi := n\<rparr>) = goldFallbackUrl e"
  "fredUrl (e\<lparr>NEWS_API_KEY := k, newsApi := n\<rparr>) s = fredUrl e s"
  "dxyUrl (e\<lparr>NEWS_API_KEY := k, newsApi := n\<rparr>) = dxyUrl e"
  by (simp_all add: goldUrl_def goldFallbackUrl_def fredUrl_def dxyUrl_def)

lemma formats_ignore_news:
  "formatDate (e\<lparr>NEWS_API_KEY := k, newsApi := n\<rparr>) s = formatDate e s"
  "fedPoint (e\<lparr>NEWS_API_KEY := k, newsApi := n\<rparr>) obs r = fedPoint e obs r"
  by (simp_all add: formatDate_def fedPoint_def)

lemma combine_ignore_news:
  "combine (e\<lparr>NEWS_API_KEY := k, newsApi := n\<rparr>) idx obs ry = combine e idx obs ry"
proof (induction obs arbitrary: idx ry)
  case Nil
  then show ?case by simp
next
  case (Cons ob rest)
  then show ?case
    by (cases ry) (simp_all add: formats_ignore_news Let_def split: sum.splits)
qed

lemma proxyFrom_ignore_news:
  "proxyFrom (e\<lparr>NEWS_API_KEY := k, newsApi := n\<rparr>) pd len i = proxyFrom e pd len i"
proof (induction "len - i" arbitrary: i)
  case 0
  then show ?case
    by (simp add: proxyFrom.simps [of _ pd len i])
next
  case (Suc m)
  then have "proxyFrom (e\<lparr>NEWS_API_KEY := k, newsApi := n\<rparr>) pd len (Suc i) = proxyFrom e pd len (Suc i)"
    by simp
  then show ?case
    by (simp add: proxyFrom.simps [of _ pd len i] formats_ignore_news
          split: sum.splits option.splits)
qed

lemma parts_ignore_news:
  "goldPrimary (e\<lparr>NEWS_API_KEY := k, newsApi := n\<rparr>) r = goldPrimary e r"
  "goldFallback (e\<lparr>NEWS_API_KEY := k, newsApi := n\<rparr>) r' = goldFallback e r'"
  "fedFromFred (e\<lparr>NEWS_API_KEY := k, newsApi := n\<rparr>) a b = fedFromFred e a b"
  "dxyPrimary (e\<lparr>NEWS_API_KEY := k, newsApi := n\<rparr>) r = dxyPrimary e r"
  "dxyProxyData (e\<lparr>NEWS_API_KEY := k, newsApi := n\<rparr>) pd = dxyProxyData e pd"
  by (simp_all add: goldPrimary_def goldFallback_def fedFromFred_def dxyPrimary_def dxyProxyData_def
        formats_ignore_news combine_ignore_news proxyFrom_ignore_news Let_def
        split: sum.splits option.splits list.splits)

lemma tasks_ignore_news:
  "updateGoldPrice (e\<lparr>NEWS_API_KEY := k, newsApi := n\<rparr>) w = updateGoldPrice e w"
  "updateFedData (e\<lparr>NEWS_API_KEY := k, newsApi := n\<rparr>) w = updateFedData e w"
  "updateDollarIndex (e\<lparr>NEWS_API_KEY := k, newsApi := n\<rparr>) w = updateDollarIndex e w"
  by (simp_all add: updateGoldPrice_def updateFedData_def updateDollarIndex_def
        urls_ignore_news parts_ignore_news fetchPairs_news Let_def
        split: sum.splits prod.splits)

text \<open>
  C8. With no news key (unset or empty) the events task returns the failure outcome and
  the world as it found it: no request is sent, no file is written, nothing is thrown.
  The run goes on as without it: the other three outcomes are those of their tasks,
  which read neither the news key nor the news provider, and the exit code is decided
  by those three alone.
\<close>

theorem updateGeopoliticalEvents_not_configured:
  assumes "\<not> truthy (NEWS_API_KEY e)"
  shows "updateGeopoliticalEvents e w = (None, w)
       \<and> requests (snd (updateGeopoliticalEvents e w)) = requests w
       \<and> updateGoldPrice (e\<lparr>NEWS_API_KEY := k, newsApi := n\<rparr>) w = updateGoldPrice e w
       \<and> updateFedData (e\<lparr>NEWS_API_KEY := k, newsApi := n\<rparr>) w = updateFedData e w
       \<and> updateDollarIndex (e\<lparr>NEWS_API_KEY := k, newsApi := n\<rparr>) w = updateDollarIndex e w
       \<and> outcomes (main e w) =
           \<lparr>goldPrice = fst (updateGoldPrice e w), fedPolicy = fst (updateFedData e w),
            dollarIndex = fst (updateDollarIndex e w), geopolitical = None\<rparr>
       \<and> finalWorld (main e w)
           = snd (updateDollarIndex e (snd (updateFedData e (snd (updateGoldPrice e w)))))
       \<and> exitCode (main e w) =
           (if fst (updateGoldPrice e w) = None \<and> fst (updateFedData e w) = None
               \<and> fst (updateDollarIndex e w) = None then 1 else 0)"
proof -
  have skip: "updateGeopoliticalEvents e v = (None, v)" for v
    using assms by (simp add: updateGeopoliticalEvents_def)
  show ?thesis
    by (simp add: skip tasks_ignore_news main_unfold Let_def outcomes_def finalWorld_def
          exitCode_def successCount_zero)
qed

theorem updateGeopoliticalEvents_not_configured_witness:
  "\<not> truthy (NEWS_API_KEY goldOnly)
   \<and> updateGeopoliticalEvents goldOnly emptyWorld = (None, emptyWorld)
   \<and> geopolitical (outcomes (main goldOnly emptyWorld)) = None
   \<and> exitCode (main goldOnly emptyWorld) = 0"
proof -
  have h: "\<not> truthy (NEWS_API_KEY goldOnly)"
    by (simp add: goldOnly_def offline_def)
  have "fst (updateGoldPrice goldOnly emptyWorld) \<noteq> None"
    by (simp add: updateGoldPrice_def goldPrimary_def goldOnly_def goldUrl_def goldFeed_def Let_def
          offline_def)
  then show ?thesis
    using h updateGeopoliticalEvents_not_configured [OF h, of emptyWorld] by simp
qed

text \<open>
  C9. Whenever the events task succeeds, the record set it returns is the one it has
  written to \<open>geopolitical-events.json\<close>, after the one request to the news
  provider, and it holds at most 15 events: the first 15 of the classified articles of
  the response, in the order the provider sent them (all of them when there are fewer
  than 15).
\<close>

theorem updateGeopoliticalEvents_keeps_15:
  assumes "updateGeopoliticalEvents e w = (Some g, w')"
  shows "w' = (sent (newsUrl e) w)\<lparr>geopolitical_events_json := Some g\<rparr>
       \<and> geopolitical_events_json w' = Some g
       \<and> (case geopolitical_events_json w' of None \<Rightarrow> False | Some saved \<Rightarrow> length (events saved) \<le> 15)
       \<and> length (events g) \<le> 15
       \<and> (\<exists>ok data arts evs.
             newsApi e (newsUrl e) = Response ok (Some data) \<and> articles data = Some arts
             \<and> toEvents arts = Inr evs \<and> length evs = length arts
             \<and> (\<forall>i < length arts. toEvent (arts ! i) = Inr (evs ! i))
             \<and> events g = take 15 evs
             \<and> length (events g) = min 15 (length arts))"
proof -
  from assms have key: "truthy (NEWS_API_KEY e)"
    by (auto simp: updateGeopoliticalEvents_def split: if_splits)
  with assms have geo: "geoFromNews e (newsApi e (newsUrl e)) = Inr g"
    by (auto simp: updateGeopoliticalEvents_def Let_def split: sum.splits)
  from assms key geo have saved: "w' = (sent (newsUrl e) w)\<lparr>geopolitical_events_json := Some g\<rparr>"
    by (simp add: updateGeopoliticalEvents_def Let_def)
  from geo obtain ok data where resp: "newsApi e (newsUrl e) = Response ok (Some data)"
    by (cases "newsApi e (newsUrl e)" rule: jsonOf.cases) (auto simp: geoFromNews_def)
  from geo resp obtain arts where arts: "articles data = Some arts"
    by (cases "articles data") (auto simp: geoFromNews_def split: if_splits)
  from geo resp arts obtain evs where evs: "toEvents arts = Inr evs" "events g = take 15 evs"
    by (cases "toEvents arts") (auto simp: geoFromNews_def split: if_splits)
  have len: "length evs = length arts"
    using evs(1) by (rule toEvents_length)
  have each: "\<forall>i < length arts. toEvent (arts ! i) = Inr (evs ! i)"
    using evs(1) toEvents_nth by blast
  have count: "length (events g) = min 15 (length arts)"
    using evs(2) len by (simp add: min.commute)
  have written: "geopolitical_events_json w' = Some g"
    using saved by simp
  have "\<exists>ok data arts evs.
             newsApi e (newsUrl e) = Response ok (Some data) \<and> articles data = Some arts
             \<and> toEvents arts = Inr evs \<and> length evs = length arts
             \<and> (\<forall>i < length arts. toEvent (arts ! i) = Inr (evs ! i))
             \<and> events g = take 15 evs
             \<and> length (events g) = min 15 (length arts)"
    using resp arts evs len each count by blast
  then show ?thesis
    using saved written count by simp
qed

lemma story_event:
  "toEvent (story day) =
     Inr \<lparr>e_date = beforeT (day @ ''T08:00:00Z''), event = ''Gold steady'', e_severity = Low,
          e_impact = Neutral, e_url = Some ''https://example.org/gold''\<rparr>"
  by (simp add: toEvent_def story_def severityOf_def impactOf_def toLowerCase_def toLowerChar_def
        matchAny_def Let_def)

theorem updateGeopoliticalEvents_keeps_15_witness:
  "\<exists>g w'. updateGeopoliticalEvents newsOnly emptyWorld = (Some g, w')
       \<and> geopolitical_events_json w' = Some g
       \<and> requests w' = [newsUrl newsOnly]
       \<and> (\<exists>arts. articles newsFeed = Some arts \<and> length arts = 17)
       \<and> length (events g) = 15
       \<and> e_date (events g ! 0) = ''2024-01-16''
       \<and> e_date (events g ! 14) = ''2024-01-02''"
proof -
  obtain g w' where run: "updateGeopoliticalEvents newsOnly emptyWorld = (Some g, w')"
    by (simp add: updateGeopoliticalEvents_def geoFromNews_def newsOnly_def offline_def newsFeed_def
          story_event Let_def)
  have resp: "newsApi newsOnly (newsUrl newsOnly) = Response True (Some newsFeed)"
    by (simp add: newsOnly_def)
  note c = updateGeopoliticalEvents_keeps_15 [OF run]
  from c have saved: "w' = (sent (newsUrl newsOnly) emptyWorld)\<lparr>geopolitical_events_json := Some g\<rparr>"
    by (elim conjE)
  from c resp
  obtain arts evs where a: "articles newsFeed = Some arts" "toEvents arts = Inr evs"
      "events g = take 15 evs" "length (events g) = min 15 (length arts)"
    by auto
  have n: "length arts = 17"
    using a(1) by (auto simp: newsFeed_def)
  have "toEvents arts = Inr (map (\<lambda>a. case toEvent a of Inr ev \<Rightarrow> ev) arts)"
    using a(1) by (auto simp: newsFeed_def story_event)
  then have "evs = map (\<lambda>a. case toEvent a of Inr ev \<Rightarrow> ev) arts"
    using a(2) by simp
  then have "e_date (events g ! 0) = ''2024-01-16''" "e_date (events g ! 14) = ''2024-01-02''"
    using a(1,3) by (auto simp: newsFeed_def story_event beforeT_def)
  then show ?thesis
    using run a n saved by (auto simp: sent_def emptyWorld_def)
qed

section \<open>Degenerate payloads\<close>

text \<open>
  C10. A degenerate payload ends its own task with the failure outcome and nothing
  else. When the primary price request has failed and the fallback's time series is
  empty, the price task returns failure and writes nothing; when both rate series
  arrive and no pair is complete, the policy task returns failure and writes nothing.
  In both cases the run goes on, and its exit code is decided by the other three
  sources.
\<close>

theorem degenerate_payloads_fail_their_task_only:
  "(goldPrimary e (twelveData e (goldUrl e)) = Inl err
      \<and> alphaVantage e (goldFallbackUrl e) = Response ok (Some fb)
      \<and> \<not> truthy (av_error fb) \<and> av_series fb = Some []
    \<longrightarrow> updateGoldPrice e w = (None, sent (goldFallbackUrl e) (sent (goldUrl e) w))
        \<and> exitCode (main e w) =
              (if fst (updateFedData e w) = None \<and> fst (updateDollarIndex e w) = None
                  \<and> fst (updateGeopoliticalEvents e w) = None then 1 else 0))
   \<and> (fred e (fredUrl e ''DFF'') = Response okRate (Some dffData)
      \<and> fred e (fredUrl e ''DFII10'') = Response okYield (Some realYieldData)
      \<and> \<not> truthy (error_message dffData) \<and> \<not> truthy (error_message realYieldData)
      \<and> observations dffData = Some dff
      \<and> combine e 0 (rev dff) (observations realYieldData) = Inr paired
      \<and> filter complete paired = []
    \<longrightarrow> updateFedData e w = (None, sent (fredUrl e ''DFII10'') (sent (fredUrl e ''DFF'') w))
        \<and> exitCode (main e w) =
              (if fst (updateGoldPrice e w) = None \<and> fst (updateDollarIndex e w) = None
                  \<and> fst (updateGeopoliticalEvents e w) = None then 1 else 0))"
proof (intro conjI impI)
  assume a: "goldPrimary e (twelveData e (goldUrl e)) = Inl err
      \<and> alphaVantage e (goldFallbackUrl e) = Response ok (Some fb)
      \<and> \<not> truthy (av_error fb) \<and> av_series fb = Some []"
  then have run: "updateGoldPrice e v = (None, sent (goldFallbackUrl e) (sent (goldUrl e) v))" for v
    by (simp add: updateGoldPrice_def goldFallback_def Let_def)
  from run show "updateGoldPrice e w = (None, sent (goldFallbackUrl e) (sent (goldUrl e) w))" .
  from run show "exitCode (main e w) =
              (if fst (updateFedData e w) = None \<and> fst (updateDollarIndex e w) = None
                  \<and> fst (updateGeopoliticalEvents e w) = None then 1 else 0)"
    by (simp add: main_unfold Let_def exitCode_def successCount_zero)
next
  assume a: "fred e (fredUrl e ''DFF'') = Response okRate (Some dffData)
      \<and> fred e (fredUrl e ''DFII10'') = Response okYield (Some realYieldData)
      \<and> \<not> truthy (error_message dffData) \<and> \<not> truthy (error_message realYieldData)
      \<and> observations dffData = Some dff
      \<and> combine e 0 (rev dff) (observations realYieldData) = Inr paired
      \<and> filter complete paired = []"
  then have run: "updateFedData e v = (None, sent (fredUrl e ''DFII10'') (sent (fredUrl e ''DFF'') v))"
    for v
    by (simp add: updateFedData_def fedFromFred_def Let_def)
  from run show "updateFedData e w = (None, sent (fredUrl e ''DFII10'') (sent (fredUrl e ''DFF'') w))" .
  from run show "exitCode (main e w) =
              (if fst (updateGoldPrice e w) = None \<and> fst (updateDollarIndex e w) = None
                  \<and> fst (updateGeopoliticalEvents e w) = None then 1 else 0)"
    by (simp add: main_unfold Let_def exitCode_def successCount_zero)
qed

theorem degenerate_payloads_fail_their_task_only_witness:
  "fst (updateGoldPrice emptySeries emptyWorld) = None
   \<and> gold_price_json (snd (updateGoldPrice emptySeries emptyWorld)) = None
   \<and> exitCode (main emptySeries emptyWorld) = 1
   \<and> fst (updateFedData holidays emptyWorld) = None
   \<and> fed_policy_json (snd (updateFedData holidays emptyWorld)) = None
   \<and> fst (updateGoldPrice holidays emptyWorld) \<noteq> None
   \<and> exitCode (main holidays emptyWorld) = 0"
proof -
  let ?dff = "[\<lparr>obs_date = ''2024-01-15'', obs_value = ''.''\<rparr>,
               \<lparr>obs_date = ''2024-01-14'', obs_value = ''.''\<rparr>]"
  have g1: "goldPrimary emptySeries (twelveData emptySeries (goldUrl emptySeries)) = Inl FetchFailed
      \<and> alphaVantage emptySeries (goldFallbackUrl emptySeries)
          = Response True (Some \<lparr>av_error = None, av_series = Some []\<rparr>)
      \<and> \<not> truthy (av_error \<lparr>av_error = None, av_series = Some []\<rparr>)
      \<and> av_series \<lparr>av_error = None, av_series = Some []\<rparr> = Some []"
    by (simp add: emptySeries_def goldPrimary_def)
  have others: "fst (updateFedData emptySeries emptyWorld) = None"
      "fst (updateDollarIndex emptySeries emptyWorld) = None"
      "fst (updateGeopoliticalEvents emptySeries emptyWorld) = None"
    by (simp_all add: updateFedData_def updateDollarIndex_def updateGeopoliticalEvents_def
          dxyPrimary_def pairs_def emptySeries_def goldOnly_def offline_def Let_def)
  have f1: "fred holidays (fredUrl holidays ''DFF'') = Response True (Some holidayFed)
      \<and> fred holidays (fredUrl holidays ''DFII10'') = Response True (Some holidayYield)
      \<and> \<not> truthy (error_message holidayFed) \<and> \<not> truthy (error_message holidayYield)
      \<and> observations holidayFed = Some ?dff
      \<and> combine holidays 0 (rev ?dff) (observations holidayYield)
           = Inr [\<lparr>f_date = formatDate holidays ''2024-01-14'', fedRate = None, realYield = None\<rparr>,
                  \<lparr>f_date = formatDate holidays ''2024-01-15'', fedRate = None, realYield = None\<rparr>]
      \<and> filter complete [\<lparr>f_date = formatDate holidays ''2024-01-14'', fedRate = None, realYield = None\<rparr>,
                  \<lparr>f_date = formatDate holidays ''2024-01-15'', fedRate = None, realYield = None\<rparr>] = []"
    by (simp add: holidays_def goldOnly_def offline_def fredUrl_def holidayFed_def holidayYield_def
          fedPoint_def elemAt_def complete_def Let_def)
  have gold: "fst (updateGoldPrice holidays emptyWorld) \<noteq> None"
    by (simp add: updateGoldPrice_def goldPrimary_def holidays_def goldOnly_def goldUrl_def
          goldFeed_def Let_def offline_def)
  have d1: "updateGoldPrice emptySeries emptyWorld
              = (None, sent (goldFallbackUrl emptySeries) (sent (goldUrl emptySeries) emptyWorld))"
       "exitCode (main emptySeries emptyWorld) = 1"
    using degenerate_payloads_fail_their_task_only
            [where e = emptySeries and err = FetchFailed and ok = True
               and fb = "\<lparr>av_error = None, av_series = Some []\<rparr>" and w = emptyWorld]
          g1 others
    by simp_all
  have d2: "updateFedData holidays emptyWorld
              = (None, sent (fredUrl holidays ''DFII10'') (sent (fredUrl holidays ''DFF'') emptyWorld))"
       "exitCode (main holidays emptyWorld) = 0"
    using degenerate_payloads_fail_their_task_only
            [where e = holidays and w = emptyWorld and okRate = True and dffData = holidayFed
               and okYield = True and realYieldData = holidayYield and dff = ?dff
               and paired = "[\<lparr>f_date = formatDate holidays ''2024-01-14'', fedRate = None, realYield = None\<rparr>,
                  \<lparr>f_date = formatDate holidays ''2024-01-15'', fedRate = None, realYield = None\<rparr>]"]
          f1 gold
    by simp_all
  show ?thesis
    using d1 d2 gold by (simp add: sent_def emptyWorld_def)
qed

section \<open>Event classification\<close>

text \<open>
  C6. The classifier works on the lower-cased headline and summary. Severity is high
  when one of war, crisis, attack, collapse, crash occurs in the text, checked first;
  medium when none of them does and one of tension, concern, risk, warning, threat
  occurs; low otherwise. Impact is positive when gold is followed by one of rises,
  rally, surge, gains, higher; negative when it is not and gold is followed by one of
  falls, decline, drop, lower; and with neither it is positive, not neutral, for
  severity medium or high, and neutral for severity low. The three texts of the
  specification classify as (high, positive), (medium, positive), (low, negative).
\<close>

theorem event_classification:
  "(severityOf t = High \<longleftrightarrow> matchAny t [''war'', ''crisis'', ''attack'', ''collapse'', ''crash''])
   \<and> (severityOf t = Medium \<longleftrightarrow>
         \<not> matchAny t [''war'', ''crisis'', ''attack'', ''collapse'', ''crash'']
         \<and> matchAny t [''tension'', ''concern'', ''risk'', ''warning'', ''threat''])
   \<and> (severityOf t = Low \<longleftrightarrow>
         \<not> matchAny t [''war'', ''crisis'', ''attack'', ''collapse'', ''crash'']
         \<and> \<not> matchAny t [''tension'', ''concern'', ''risk'', ''warning'', ''threat''])
   \<and> (matchAny t [''gold rises'', ''gold rally'', ''gold surge'', ''gold gains'', ''gold higher'']
         \<longrightarrow> impactOf t sev = Positive)
   \<and> (\<not> matchAny t [''gold rises'', ''gold rally'', ''gold surge'', ''gold gains'', ''gold higher'']
         \<and> matchAny t [''gold falls'', ''gold decline'', ''gold drop'', ''gold lower'']
         \<longrightarrow> impactOf t sev = Negative)
   \<and> (\<not> matchAny t [''gold rises'', ''gold rally'', ''gold surge'', ''gold gains'', ''gold higher'']
         \<and> \<not> matchAny t [''gold falls'', ''gold decline'', ''gold drop'', ''gold lower'']
         \<longrightarrow> impactOf t sev = (if sev = Low then Neutral else Positive))
   \<and> (toEvent a = Inr ev \<longrightarrow>
         e_severity ev = severityOf (toLowerCase (nullOr (title a) @ '' '' @ nullOr (description a)))
         \<and> e_impact ev = impactOf (toLowerCase (nullOr (title a) @ '' '' @ nullOr (description a)))
                            (e_severity ev))
   \<and> severityOf (toLowerCase ''War breaks out, gold rises'') = High
   \<and> impactOf (toLowerCase ''War breaks out, gold rises'') High = Positive
   \<and> severityOf (toLowerCase ''Minor tension reported'') = Medium
   \<and> impactOf (toLowerCase ''Minor tension reported'') Medium = Positive
   \<and> severityOf (toLowerCase ''Markets calm, gold falls slightly'') = Low
   \<and> impactOf (toLowerCase ''Markets calm, gold falls slightly'') Low = Negative"
proof -
  have sev: "(severityOf t = High \<longleftrightarrow> matchAny t [''war'', ''crisis'', ''attack'', ''collapse'', ''crash''])
   \<and> (severityOf t = Medium \<longleftrightarrow>
         \<not> matchAny t [''war'', ''crisis'', ''attack'', ''collapse'', ''crash'']
         \<and> matchAny t [''tension'', ''concern'', ''risk'', ''warning'', ''threat''])
   \<and> (severityOf t = Low \<longleftrightarrow>
         \<not> matchAny t [''war'', ''crisis'', ''attack'', ''collapse'', ''crash'']
         \<and> \<not> matchAny t [''tension'', ''concern'', ''risk'', ''warning'', ''threat''])"
    unfolding severityOf_def by simp
  have imp: "(matchAny t [''gold rises'', ''gold rally'', ''gold surge'', ''gold gains'', ''gold higher'']
         \<longrightarrow> impactOf t sev = Positive)
   \<and> (\<not> matchAny t [''gold rises'', ''gold rally'', ''gold surge'', ''gold gains'', ''gold higher'']
         \<and> matchAny t [''gold falls'', ''gold decline'', ''gold drop'', ''gold lower'']
         \<longrightarrow> impactOf t sev = Negative)
   \<and> (\<not> matchAny t [''gold rises'', ''gold rally'', ''gold surge'', ''gold gains'', ''gold higher'']
         \<and> \<not> matchAny t [''gold falls'', ''gold decline'', ''gold drop'', ''gold lower'']
         \<longrightarrow> impactOf t sev = (if sev = Low then Neutral else Positive))"
    unfolding impactOf_def by (cases sev) simp_all
  have ev: "toEvent a = Inr ev \<longrightarrow>
         e_severity ev = severityOf (toLowerCase (nullOr (title a) @ '' '' @ nullOr (description a)))
         \<and> e_impact ev = impactOf (toLowerCase (nullOr (title a) @ '' '' @ nullOr (description a)))
                            (e_severity ev)"
    by (auto simp: toEvent_def Let_def split: option.splits)
  have x1: "severityOf (toLowerCase ''War breaks out, gold rises'') = High"
    by (simp add: severityOf_def toLowerCase_def toLowerChar_def matchAny_def)
  have x2: "impactOf (toLowerCase ''War breaks out, gold rises'') High = Positive"
    by (simp add: impactOf_def toLowerCase_def toLowerChar_def matchAny_def)
  have x3: "severityOf (toLowerCase ''Minor tension reported'') = Medium"
    by (simp add: severityOf_def toLowerCase_def toLowerChar_def matchAny_def)
  have x4: "impactOf (toLowerCase ''Minor tension reported'') Medium = Positive"
    by (simp add: impactOf_def toLowerCase_def toLowerChar_def matchAny_def)
  have x5: "severityOf (toLowerCase ''Markets calm, gold falls slightly'') = Low"
    by (simp add: severityOf_def toLowerCase_def toLowerChar_def matchAny_def)
  have x6: "impactOf (toLowerCase ''Markets calm, gold falls slightly'') Low = Negative"
    by (simp add: impactOf_def toLowerCase_def toLowerChar_def matchAny_def)
  show ?thesis
    using sev imp ev x1 x2 x3 x4 x5 x6 by blast
qed

theorem event_classification_witness:
  "toEvent \<lparr>title = Some ''Minor tension reported'', description = Some ''Traders watch the Fed'',
            publishedAt = Some ''2024-01-15T10:30:00Z'', url = None\<rparr>
     = Inr \<lparr>e_date = ''2024-01-15'', event = ''Minor tension reported'', e_severity = Medium,
            e_impact = Positive, e_url = None\<rparr>
   \<and> \<not> matchAny ''minor tension reported traders watch the fed''
          [''war'', ''crisis'', ''attack'', ''collapse'', ''crash'']
   \<and> matchAny ''minor tension reported traders watch the fed''
          [''tension'', ''concern'', ''risk'', ''warning'', ''threat'']
   \<and> \<not> matchAny ''minor tension reported traders watch the fed''
          [''gold rises'', ''gold rally'', ''gold surge'', ''gold gains'', ''gold higher'']
   \<and> \<not> matchAny ''minor tension reported traders watch the fed''
          [''gold falls'', ''gold decline'', ''gold drop'', ''gold lower'']
   \<and> severityOf ''minor tension reported traders watch the fed'' = Medium
   \<and> impactOf ''minor tension reported traders watch the fed'' Medium = Positive"
proof -
  let ?t = "''minor tension reported traders watch the fed''"
  let ?a = "\<lparr>title = Some ''Minor tension reported'', description = Some ''Traders watch the Fed'',
            publishedAt = Some ''2024-01-15T10:30:00Z'', url = None\<rparr>"
  have m: "\<not> matchAny ?t [''war'', ''crisis'', ''attack'', ''collapse'', ''crash'']"
      "matchAny ?t [''tension'', ''concern'', ''risk'', ''warning'', ''threat'']"
      "\<not> matchAny ?t [''gold rises'', ''gold rally'', ''gold surge'', ''gold gains'', ''gold higher'']"
      "\<not> matchAny ?t [''gold falls'', ''gold decline'', ''gold drop'', ''gold lower'']"
    by (simp_all add: matchAny_def)
  have low: "toLowerCase (nullOr (title ?a) @ '' '' @ nullOr (description ?a)) = ?t"
    by (simp add: toLowerCase_def toLowerChar_def)
  obtain ev where ev: "toEvent ?a = Inr ev" "e_date ev = ''2024-01-15''"
      "event ev = ''Minor tension reported''" "e_url ev = None"
    by (simp add: toEvent_def Let_def beforeT_def)
  note c = event_classification [where t = ?t and sev = Medium and a = ?a and ev = ev]
  from c m have s: "severityOf ?t = Medium" and i: "impactOf ?t Medium = Positive"
    by simp_all
  from c ev(1) low s i have "e_severity ev = Medium" "e_impact ev = Positive"
    by simp_all
  with ev have "ev = \<lparr>e_date = ''2024-01-15'', event = ''Minor tension reported'', e_severity = Medium,
            e_impact = Positive, e_url = None\<rparr>"
    by (cases ev) simp
  with ev(1) m s i show ?thesis
    by simp
qed

section \<open>Dollar index: the proxy from four currency pairs\<close>

lemma fetchPairs_Inl:
  "\<exists>p \<in> set ps. \<exists>err. jsonOf (twelveData e (pairUrl e p)) = Inl err
     \<Longrightarrow> \<exists>err w'. fetchPairs e ps pd w = (Inl err, w')"
proof (induction ps arbitrary: pd w)
  case Nil
  then show ?case by simp
next
  case (Cons p ps)
  show ?case
  proof (cases "jsonOf (twelveData e (pairUrl e p))")
    case (Inl err)
    then show ?thesis by (simp add: Let_def)
  next
    case (Inr b)
    with Cons.prems have "\<exists>q \<in> set ps. \<exists>err. jsonOf (twelveData e (pairUrl e q)) = Inl err"
      by auto
    from Cons.IH [OF this] Inr show ?thesis by (simp add: Let_def)
  qed
qed

lemma fetchPairs_Inr:
  "fetchPairs e ps pd w = (Inr pd', w') \<Longrightarrow>
     pd' = pd @ concat (map (\<lambda>p. case jsonOf (twelveData e (pairUrl e p)) of
                                     Inl err \<Rightarrow> []
                                   | Inr b \<Rightarrow> (case td_values b of None \<Rightarrow> [] | Some v \<Rightarrow> [(p, v)])) ps)"
proof (induction ps arbitrary: pd w)
  case Nil
  then show ?case by simp
next
  case (Cons p ps)
  show ?case
  proof (cases "jsonOf (twelveData e (pairUrl e p))")
    case (Inl err)
    with Cons.prems show ?thesis by (simp add: Let_def)
  next
    case (Inr b)
    let ?pd = "case td_values b of None \<Rightarrow> pd | Some v \<Rightarrow> pd @ [(p, v)]"
    from Cons.prems Inr have "fetchPairs e ps ?pd (sent (pairUrl e p) w) = (Inr pd', w')"
      by (simp add: Let_def)
    from Cons.IH [OF this] Inr show ?thesis
      by (simp split: option.splits)
  qed
qed

lemma fetchPairs_total: "\<exists>r w'. fetchPairs e ps pd w = (r, w')"
  by (cases "fetchPairs e ps pd w") simp

lemma weightedSumAt_missing:
  "\<exists>p \<in> set ps. map_of pd p = None \<Longrightarrow> weightedSumAt pd i ps acc = Inl TypeError"
proof (induction ps arbitrary: acc)
  case Nil
  then show ?case by simp
next
  case (Cons q ps)
  then show ?case
    by (cases "map_of pd q"; cases "elemAt (the (map_of pd q)) i") auto
qed

lemma minOf_zero: "0 \<in> set ns \<Longrightarrow> minOf ns = Some 0"
  by (induction ns) (auto split: option.splits)

lemma minOf_Min: "ns \<noteq> [] \<Longrightarrow> minOf ns = Some (Min (set ns))"
proof (induction ns)
  case Nil
  then show ?case by simp
next
  case (Cons n ns)
  then show ?case
    by (cases ns) (auto simp: min.commute)
qed

lemma proxyFrom_nothing: "proxyFrom e pd 0 0 = Inr []"
  by (simp add: proxyFrom.simps)

lemma dxyProxyData_missing:
  assumes "\<exists>p \<in> set pairs. map_of pd p = None"
  shows "\<exists>err. dxyProxyData e pd = Inl err"
proof (cases "minOf (map (\<lambda>(pair, v). length v) pd)")
  case None
  then show ?thesis by (simp add: dxyProxyData_def)
next
  case (Some len)
  show ?thesis
  proof (cases "len = 0")
    case True
    with Some show ?thesis by (simp add: dxyProxyData_def proxyFrom_nothing)
  next
    case False
    then have "proxyFrom e pd len 0 = Inl TypeError"
      using weightedSumAt_missing [OF assms, of 0 "Num 100"]
      by (subst proxyFrom.simps) simp
    with Some show ?thesis by (simp add: dxyProxyData_def)
  qed
qed

lemma dxyProxyData_empty:
  assumes "(p, []) \<in> set pd"
  shows "\<exists>err. dxyProxyData e pd = Inl err"
proof -
  from assms have "0 \<in> set (map (\<lambda>(pair, v). length v) pd)"
    by force
  then have "minOf (map (\<lambda>(pair, v). length v) pd) = Some 0"
    by (rule minOf_zero)
  then show ?thesis
    by (simp add: dxyProxyData_def proxyFrom_nothing)
qed


lemma weightedSumAt_four:
  assumes "i < length eur" "i < length jpy" "i < length gbp" "i < length cad"
  shows "weightedSumAt [(''EUR/USD'', eur), (''USD/JPY'', jpy), (''GBP/USD'', gbp), (''USD/CAD'', cad)]
           i pairs (Num 100)
         = Inr (jadd (jadd (jadd (jadd (Num 100)
                  (jmul (toDouble (- 0.576)) (parseFloat (close (eur ! i)))))
                  (jmul (toDouble 0.136) (parseFloat (close (jpy ! i)))))
                  (jmul (toDouble (- 0.119)) (parseFloat (close (gbp ! i)))))
                  (jmul (toDouble 0.091) (parseFloat (close (cad ! i)))))"
  using assms by (simp add: pairs_def weightOf_def weights_def elemAt_def)

lemma proxyFrom_four:
  assumes "len \<le> length eur" "len \<le> length jpy" "len \<le> length gbp" "len \<le> length cad"
  shows "proxyFrom e [(''EUR/USD'', eur), (''USD/JPY'', jpy), (''GBP/USD'', gbp), (''USD/CAD'', cad)] len i
         = Inr (map (\<lambda>i. \<lparr>x_date = formatDate e (datetime (eur ! i)),
                            dxy = toFixed (jadd (jadd (jadd (jadd (Num 100)
                                    (jmul (toDouble (- 0.576)) (parseFloat (close (eur ! i)))))
                                    (jmul (toDouble 0.136) (parseFloat (close (jpy ! i)))))
                                    (jmul (toDouble (- 0.119)) (parseFloat (close (gbp ! i)))))
                                    (jmul (toDouble 0.091) (parseFloat (close (cad ! i))))) 1\<rparr>)
                  [i..<len])"
proof (induction "len - i" arbitrary: i)
  case 0
  then show ?case
    by (subst proxyFrom.simps) simp
next
  case (Suc k)
  then have i: "i < len" and k: "k = len - Suc i"
    by simp_all
  from i assms have b: "i < length eur" "i < length jpy" "i < length gbp" "i < length cad"
    by simp_all
  have first: "pairs ! 0 = ''EUR/USD''"
    by (simp add: pairs_def)
  show ?case
    using i b
    by (subst proxyFrom.simps)
       (simp add: weightedSumAt_four [OF b] Suc.hyps(1) [OF k] first elemAt_def upt_conv_Cons)
qed


lemma fetchPairs_four:
  assumes "jsonOf (twelveData e (pairUrl e ''EUR/USD'')) = Inr bEur" "td_values bEur = Some eur"
      and "jsonOf (twelveData e (pairUrl e ''USD/JPY'')) = Inr bJpy" "td_values bJpy = Some jpy"
      and "jsonOf (twelveData e (pairUrl e ''GBP/USD'')) = Inr bGbp" "td_values bGbp = Some gbp"
      and "jsonOf (twelveData e (pairUrl e ''USD/CAD'')) = Inr bCad" "td_values bCad = Some cad"
  shows "fetchPairs e pairs [] w
         = (Inr [(''EUR/USD'', eur), (''USD/JPY'', jpy), (''GBP/USD'', gbp), (''USD/CAD'', cad)],
            w\<lparr>requests := requests w @ map (pairUrl e) pairs\<rparr>)"
  using assms by (simp add: pairs_def Let_def sent_def)

lemma dxyProxyData_four:
  assumes "eur \<noteq> []" "jpy \<noteq> []" "gbp \<noteq> []" "cad \<noteq> []"
  shows "dxyProxyData e [(''EUR/USD'', eur), (''USD/JPY'', jpy), (''GBP/USD'', gbp), (''USD/CAD'', cad)]
         = Inr \<lparr>x_lastUpdated = now e, x_source = ''Calculated DXY Proxy'',
                currentDXY = toFixed (jadd (jadd (jadd (jadd (Num 100)
                                    (jmul (toDouble (- 0.576)) (parseFloat (close (eur ! 0)))))
                                    (jmul (toDouble 0.136) (parseFloat (close (jpy ! 0)))))
                                    (jmul (toDouble (- 0.119)) (parseFloat (close (gbp ! 0)))))
                                    (jmul (toDouble 0.091) (parseFloat (close (cad ! 0))))) 1,
                x_data = rev (map (\<lambda>i. \<lparr>x_date = formatDate e (datetime (eur ! i)),
                            dxy = toFixed (jadd (jadd (jadd (jadd (Num 100)
                                    (jmul (toDouble (- 0.576)) (parseFloat (close (eur ! i)))))
                                    (jmul (toDouble 0.136) (parseFloat (close (jpy ! i)))))
                                    (jmul (toDouble (- 0.119)) (parseFloat (close (gbp ! i)))))
                                    (jmul (toDouble 0.091) (parseFloat (close (cad ! i))))) 1\<rparr>)
                  [0..<min (length eur) (min (length jpy) (min (length gbp) (length cad)))])\<rparr>"
proof -
  let ?len = "min (length eur) (min (length jpy) (min (length gbp) (length cad)))"
  have pos: "0 < ?len"
    using assms by simp
  have len: "minOf [length eur, length jpy, length gbp, length cad] = Some ?len"
    by simp
  have "[0..<?len] = 0 # [Suc 0..<?len]"
    using pos by (simp add: upt_conv_Cons)
  then show ?thesis
    by (simp add: dxyProxyData_def len proxyFrom_four del: minOf.simps)
qed


lemma rev_map_upt_nth: "i < n \<Longrightarrow> rev (map f [0..<n]) ! (n - 1 - i) = f i"
proof -
  assume i: "i < n"
  then have "n - Suc (n - 1 - i) = i"
    by simp
  with i show ?thesis
    by (simp add: rev_nth)
qed

lemma proxy_success:
  assumes primary: "dxyPrimary e (twelveData e (dxyUrl e)) = Inl err"
      and eur: "jsonOf (twelveData e (pairUrl e ''EUR/USD'')) = Inr bEur" "td_values bEur = Some eur" "eur \<noteq> []"
      and jpy: "jsonOf (twelveData e (pairUrl e ''USD/JPY'')) = Inr bJpy" "td_values bJpy = Some jpy" "jpy \<noteq> []"
      and gbp: "jsonOf (twelveData e (pairUrl e ''GBP/USD'')) = Inr bGbp" "td_values bGbp = Some gbp" "gbp \<noteq> []"
      and cad: "jsonOf (twelveData e (pairUrl e ''USD/CAD'')) = Inr bCad" "td_values bCad = Some cad" "cad \<noteq> []"
  shows "\<exists>x. updateDollarIndex e w
               = (Some x, w\<lparr>requests := requests w @ dxyUrl e # map (pairUrl e) pairs,
                            dollar_index_json := Some x\<rparr>)
           \<and> x_source x = ''Calculated DXY Proxy''
           \<and> length (x_data x) = min (length eur) (min (length jpy) (min (length gbp) (length cad)))
           \<and> (\<forall>i < length (x_data x).
                 x_data x ! (length (x_data x) - 1 - i) =
                   \<lparr>x_date = formatDate e (datetime (eur ! i)),
                    dxy = toFixed (jadd (jadd (jadd (jadd (Num 100)
                                    (jmul (toDouble (- 0.576)) (parseFloat (close (eur ! i)))))
                                    (jmul (toDouble 0.136) (parseFloat (close (jpy ! i)))))
                                    (jmul (toDouble (- 0.119)) (parseFloat (close (gbp ! i)))))
                                    (jmul (toDouble 0.091) (parseFloat (close (cad ! i))))) 1\<rparr>)
           \<and> currentDXY x = dxy (last (x_data x))"
proof -
  let ?pt = "\<lambda>i. \<lparr>x_date = formatDate e (datetime (eur ! i)),
                            dxy = toFixed (jadd (jadd (jadd (jadd (Num 100)
                                    (jmul (toDouble (- 0.576)) (parseFloat (close (eur ! i)))))
                                    (jmul (toDouble 0.136) (parseFloat (close (jpy ! i)))))
                                    (jmul (toDouble (- 0.119)) (parseFloat (close (gbp ! i)))))
                                    (jmul (toDouble 0.091) (parseFloat (close (cad ! i))))) 1\<rparr>"
  let ?len = "min (length eur) (min (length jpy) (min (length gbp) (length cad)))"
  let ?x = "\<lparr>x_lastUpdated = now e, x_source = ''Calculated DXY Proxy'',
             currentDXY = dxy (?pt 0), x_data = rev (map ?pt [0..<?len])\<rparr>"
  have pos: "0 < ?len"
    using eur(3) jpy(3) gbp(3) cad(3) by simp
  have data: "dxyProxyData e [(''EUR/USD'', eur), (''USD/JPY'', jpy), (''GBP/USD'', gbp), (''USD/CAD'', cad)]
              = Inr ?x"
    using dxyProxyData_four [OF eur(3) jpy(3) gbp(3) cad(3), of e] by simp
  have run: "updateDollarIndex e w
               = (Some ?x, w\<lparr>requests := requests w @ dxyUrl e # map (pairUrl e) pairs,
                             dollar_index_json := Some ?x\<rparr>)"
    using primary data
      fetchPairs_four [OF eur(1,2) jpy(1,2) gbp(1,2) cad(1,2), of "sent (dxyUrl e) w"]
    by (simp add: updateDollarIndex_def Let_def sent_def)
  have nth: "x_data ?x ! (length (x_data ?x) - 1 - i) = ?pt i" if "i < length (x_data ?x)" for i
    using that rev_map_upt_nth [of i ?len ?pt] by simp
  have "[0..<?len] = 0 # [Suc 0..<?len]"
    using pos by (simp add: upt_conv_Cons)
  then have cur: "currentDXY ?x = dxy (last (x_data ?x))"
    by simp
  show ?thesis
    using run nth cur by (intro exI [of _ ?x]) simp
qed

lemma proxy_failure:
  assumes primary: "dxyPrimary e (twelveData e (dxyUrl e)) = Inl err"
      and p: "p \<in> set pairs"
      and none: "\<forall>b vals. jsonOf (twelveData e (pairUrl e p)) = Inr b \<and> td_values b = Some vals
                   \<longrightarrow> vals = []"
  shows "fst (updateDollarIndex e w) = None"
proof -
  obtain r w2 where f: "fetchPairs e pairs [] (sent (dxyUrl e) w) = (r, w2)"
    using fetchPairs_total by blast
  show ?thesis
  proof (cases r)
    case (Inl perr)
    with f primary show ?thesis
      by (simp add: updateDollarIndex_def Let_def)
  next
    case (Inr pd)
    have got: "\<exists>b. jsonOf (twelveData e (pairUrl e p)) = Inr b"
    proof (cases "jsonOf (twelveData e (pairUrl e p))")
      case (Inl perr)
      with p fetchPairs_Inl [of pairs e "[]" "sent (dxyUrl e) w"] f Inr show ?thesis
        by auto
    next
      case (Inr b)
      then show ?thesis by blast
    qed
    then obtain b where b: "jsonOf (twelveData e (pairUrl e p)) = Inr b" ..
    define got where "got = (\<lambda>p. case jsonOf (twelveData e (pairUrl e p)) of
                                     Inl err \<Rightarrow> []
                                   | Inr b \<Rightarrow> (case td_values b of None \<Rightarrow> [] | Some v \<Rightarrow> [(p, v)]))"
    from f Inr have pd: "pd = concat (map got pairs)"
      using fetchPairs_Inr [of e pairs "[]" "sent (dxyUrl e) w" pd w2] by (simp add: got_def)
    have keys: "fst ` set (got q) \<subseteq> {q}" for q
      by (auto simp: got_def split: sum.splits option.splits)
    have "\<exists>perr. dxyProxyData e pd = Inl perr"
    proof (cases "td_values b")
      case None
      with b have "got p = []"
        by (simp add: got_def)
      with keys have "p \<notin> fst ` set pd"
        unfolding pd by fastforce
      then have "map_of pd p = None"
        by (simp add: map_of_eq_None_iff)
      with p show ?thesis
        by (intro dxyProxyData_missing) blast
    next
      case (Some vals)
      with none b have "vals = []" by blast
      with Some b have "(p, []) \<in> set (got p)"
        by (simp add: got_def)
      with p have "(p, []) \<in> set pd"
        unfolding pd by auto
      then show ?thesis
        by (rule dxyProxyData_empty)
    qed
    with f Inr primary show ?thesis
      by (auto simp: updateDollarIndex_def Let_def)
  qed
qed

text \<open>
  The sum is taken as the script takes it, in doubles: each product and each partial sum
  is rounded before the next step. With the closes 1.25, 158.92, 1.28 and 1.20 the
  exact sum is 120.85, which would print as \<open>120.9\<close>; the script's sum is just below it
  and prints as \<open>120.8\<close>.
\<close>

lemma proxy_sum_in_doubles:
  "toFixed (jadd (jadd (jadd (jadd (Num 100)
              (jmul (toDouble (- 0.576)) (parseFloat ''1.25'')))
              (jmul (toDouble 0.136) (parseFloat ''158.92'')))
              (jmul (toDouble (- 0.119)) (parseFloat ''1.28'')))
              (jmul (toDouble 0.091) (parseFloat ''1.20''))) 1 = ''120.8''"
  "toFixed (Num (100 + - 0.576 * 1.25 + 0.136 * 158.92 + - 0.119 * 1.28 + 0.091 * 1.20)) 1 = ''120.9''"
  by (simp_all add: runtime_defs)

text \<open>
  C2. When the direct index feed has failed and each of the four currency-pair requests
  brings a non-empty \<open>values\<close> array, the task succeeds with the proxy series: as many
  points as the shortest of the four arrays has (180 when all four have 180), the
  point for position \<open>i\<close> of the arrays (they are newest first, the series is written
  oldest first) carrying the date of the EUR/USD value there and, as its value, the
  one-decimal text of 100 + (-0.576) EUR/USD + 0.136 USD/JPY + (-0.119) GBP/USD
  + 0.091 USD/CAD of the four closes at \<open>i\<close>, the sum taken in double arithmetic in this
  order. When some pair brings no data (its request fails, or its body has no values or
  none at all in them), the outcome of the index source is failure.
\<close>

theorem updateDollarIndex_proxy:
  "(dxyPrimary e (twelveData e (dxyUrl e)) = Inl err
      \<and> jsonOf (twelveData e (pairUrl e ''EUR/USD'')) = Inr bEur \<and> td_values bEur = Some eur \<and> eur \<noteq> []
      \<and> jsonOf (twelveData e (pairUrl e ''USD/JPY'')) = Inr bJpy \<and> td_values bJpy = Some jpy \<and> jpy \<noteq> []
      \<and> jsonOf (twelveData e (pairUrl e ''GBP/USD'')) = Inr bGbp \<and> td_values bGbp = Some gbp \<and> gbp \<noteq> []
      \<and> jsonOf (twelveData e (pairUrl e ''USD/CAD'')) = Inr bCad \<and> td_values bCad = Some cad \<and> cad \<noteq> []
    \<longrightarrow> (\<exists>x. updateDollarIndex e w
                 = (Some x, w\<lparr>requests := requests w @ dxyUrl e # map (pairUrl e) pairs,
                              dollar_index_json := Some x\<rparr>)
            \<and> x_source x = ''Calculated DXY Proxy''
            \<and> length (x_data x) = min (length eur) (min (length jpy) (min (length gbp) (length cad)))
            \<and> (length eur = 180 \<and> length jpy = 180 \<and> length gbp = 180 \<and> length cad = 180
                  \<longrightarrow> length (x_data x) = 180)
            \<and> (\<forall>i < length (x_data x).
                  x_data x ! (length (x_data x) - 1 - i) =
                    \<lparr>x_date = formatDate e (datetime (eur ! i)),
                     dxy = toFixed (jadd (jadd (jadd (jadd (Num 100)
                                     (jmul (toDouble (- 0.576)) (parseFloat (close (eur ! i)))))
                                     (jmul (toDouble 0.136) (parseFloat (close (jpy ! i)))))
                                     (jmul (toDouble (- 0.119)) (parseFloat (close (gbp ! i)))))
                                     (jmul (toDouble 0.091) (parseFloat (close (cad ! i))))) 1\<rparr>)
            \<and> currentDXY x = dxy (last (x_data x))))
   \<and> (dxyPrimary e (twelveData e (dxyUrl e)) = Inl err
      \<and> p \<in> set pairs
      \<and> (\<forall>b vals. jsonOf (twelveData e (pairUrl e p)) = Inr b \<and> td_values b = Some vals \<longrightarrow> vals = [])
    \<longrightarrow> fst (updateDollarIndex e w) = None)"
proof (intro conjI impI)
  assume a: "dxyPrimary e (twelveData e (dxyUrl e)) = Inl err
      \<and> jsonOf (twelveData e (pairUrl e ''EUR/USD'')) = Inr bEur \<and> td_values bEur = Some eur \<and> eur \<noteq> []
      \<and> jsonOf (twelveData e (pairUrl e ''USD/JPY'')) = Inr bJpy \<and> td_values bJpy = Some jpy \<and> jpy \<noteq> []
      \<and> jsonOf (twelveData e (pairUrl e ''GBP/USD'')) = Inr bGbp \<and> td_values bGbp = Some gbp \<and> gbp \<noteq> []
      \<and> jsonOf (twelveData e (pairUrl e ''USD/CAD'')) = Inr bCad \<and> td_values bCad = Some cad \<and> cad \<noteq> []"
  from a proxy_success [of e err bEur eur bJpy jpy bGbp gbp bCad cad w]
  obtain x where x: "updateDollarIndex e w
               = (Some x, w\<lparr>requests := requests w @ dxyUrl e # map (pairUrl e) pairs,
                            dollar_index_json := Some x\<rparr>)"
      "x_source x = ''Calculated DXY Proxy''"
      "length (x_data x) = min (length eur) (min (length jpy) (min (length gbp) (length cad)))"
      "\<forall>i < length (x_data x).
                 x_data x ! (length (x_data x) - 1 - i) =
                   \<lparr>x_date = formatDate e (datetime (eur ! i)),
                    dxy = toFixed (jadd (jadd (jadd (jadd (Num 100)
                                     (jmul (toDouble (- 0.576)) (parseFloat (close (eur ! i)))))
                                     (jmul (toDouble 0.136) (parseFloat (close (jpy ! i)))))
                                     (jmul (toDouble (- 0.119)) (parseFloat (close (gbp ! i)))))
                                     (jmul (toDouble 0.091) (parseFloat (close (cad ! i))))) 1\<rparr>"
      "currentDXY x = dxy (last (x_data x))"
    by blast
  have "length eur = 180 \<and> length jpy = 180 \<and> length gbp = 180 \<and> length cad = 180
                  \<longrightarrow> length (x_data x) = 180"
    using x(3) by simp
  then show "(\<exists>x. updateDollarIndex e w
                 = (Some x, w\<lparr>requests := requests w @ dxyUrl e # map (pairUrl e) pairs,
                              dollar_index_json := Some x\<rparr>)
            \<and> x_source x = ''Calculated DXY Proxy''
            \<and> length (x_data x) = min (length eur) (min (length jpy) (min (length gbp) (length cad)))
            \<and> (length eur = 180 \<and> length jpy = 180 \<and> length gbp = 180 \<and> length cad = 180
                  \<longrightarrow> length (x_data x) = 180)
            \<and> (\<forall>i < length (x_data x).
                  x_data x ! (length (x_data x) - 1 - i) =
                    \<lparr>x_date = formatDate e (datetime (eur ! i)),
                     dxy = toFixed (jadd (jadd (jadd (jadd (Num 100)
                                     (jmul (toDouble (- 0.576)) (parseFloat (close (eur ! i)))))
                                     (jmul (toDouble 0.136) (parseFloat (close (jpy ! i)))))
                                     (jmul (toDouble (- 0.119)) (parseFloat (close (gbp ! i)))))
                                     (jmul (toDouble 0.091) (parseFloat (close (cad ! i))))) 1\<rparr>)
            \<and> currentDXY x = dxy (last (x_data x)))"
    using x by (intro exI [of _ x]) simp
next
  assume "dxyPrimary e (twelveData e (dxyUrl e)) = Inl err
      \<and> p \<in> set pairs
      \<and> (\<forall>b vals. jsonOf (twelveData e (pairUrl e p)) = Inr b \<and> td_values b = Some vals \<longrightarrow> vals = [])"
  then show "fst (updateDollarIndex e w) = None"
    using proxy_failure [of e err p w] by blast
qed

theorem updateDollarIndex_proxy_witness:
  "(\<exists>x. fst (updateDollarIndex fourPairs emptyWorld) = Some x
        \<and> dollar_index_json (snd (updateDollarIndex fourPairs emptyWorld)) = Some x
        \<and> x_source x = ''Calculated DXY Proxy''
        \<and> length (x_data x) = 2
        \<and> x_data x ! 0 = \<lparr>x_date = ''Jan 15, 2024'', dxy = ''118.4''\<rparr>
        \<and> x_data x ! 1 = \<lparr>x_date = ''Jan 16, 2024'', dxy = ''119.5''\<rparr>
        \<and> currentDXY x = ''119.5'')
   \<and> fst (updateDollarIndex offline emptyWorld) = None"
proof -
  have u: "pairUrl fourPairs q = pairUrl offline q" "dxyUrl fourPairs = dxyUrl offline" for q
    by (simp_all add: fourPairs_def pairUrl_def dxyUrl_def)
  have h0: "dxyPrimary fourPairs (twelveData fourPairs (dxyUrl fourPairs)) = Inl FetchFailed"
    by (simp add: u) (simp add: fourPairs_def pairUrl_def dxyUrl_def offline_def dxyPrimary_def)
  have h1: "jsonOf (twelveData fourPairs (pairUrl fourPairs ''EUR/USD'')) = Inr (pairFeed eurValues)"
    by (simp add: u) (simp add: fourPairs_def)
  have h2: "jsonOf (twelveData fourPairs (pairUrl fourPairs ''USD/JPY'')) = Inr (pairFeed jpyValues)"
    by (simp add: u) (simp add: fourPairs_def pairUrl_def offline_def)
  have h3: "jsonOf (twelveData fourPairs (pairUrl fourPairs ''GBP/USD'')) = Inr (pairFeed gbpValues)"
    by (simp add: u) (simp add: fourPairs_def pairUrl_def offline_def)
  have h4: "jsonOf (twelveData fourPairs (pairUrl fourPairs ''USD/CAD'')) = Inr (pairFeed cadValues)"
    by (simp add: u) (simp add: fourPairs_def pairUrl_def offline_def)
  have v: "td_values (pairFeed vals) = Some vals" for vals
    by (simp add: pairFeed_def)
  have ne: "eurValues \<noteq> []" "jpyValues \<noteq> []" "gbpValues \<noteq> []" "cadValues \<noteq> []"
    by (simp_all add: eurValues_def jpyValues_def gbpValues_def cadValues_def)
  have lens: "length eurValues = 2" "length jpyValues = 3" "length gbpValues = 2" "length cadValues = 2"
    by (simp_all add: eurValues_def jpyValues_def gbpValues_def cadValues_def)
  note c = updateDollarIndex_proxy
             [where e = fourPairs and err = FetchFailed and w = emptyWorld
                and bEur = "pairFeed eurValues" and eur = eurValues
                and bJpy = "pairFeed jpyValues" and jpy = jpyValues
                and bGbp = "pairFeed gbpValues" and gbp = gbpValues
                and bCad = "pairFeed cadValues" and cad = cadValues, THEN conjunct1, rule_format]
  from c [OF conjI [OF h0 conjI [OF h1 conjI [OF v conjI [OF ne(1) conjI [OF h2 conjI [OF v
         conjI [OF ne(2) conjI [OF h3 conjI [OF v conjI [OF ne(3) conjI [OF h4 conjI [OF v ne(4)]]]]]]]]]]]]]
  obtain x where x:
      "updateDollarIndex fourPairs emptyWorld
         = (Some x, emptyWorld\<lparr>requests := requests emptyWorld @ dxyUrl fourPairs # map (pairUrl fourPairs) pairs,
                               dollar_index_json := Some x\<rparr>)"
      and src: "x_source x = ''Calculated DXY Proxy''"
      and xlen: "length (x_data x)
                  = min (length eurValues) (min (length jpyValues) (min (length gbpValues) (length cadValues)))"
      and all: "\<forall>i < length (x_data x).
          x_data x ! (length (x_data x) - 1 - i) =
            \<lparr>x_date = formatDate fourPairs (datetime (eurValues ! i)),
             dxy = toFixed (jadd (jadd (jadd (jadd (Num 100)
                                     (jmul (toDouble (- 0.576)) (parseFloat (close (eurValues ! i)))))
                                     (jmul (toDouble 0.136) (parseFloat (close (jpyValues ! i)))))
                                     (jmul (toDouble (- 0.119)) (parseFloat (close (gbpValues ! i)))))
                                     (jmul (toDouble 0.091) (parseFloat (close (cadValues ! i))))) 1\<rparr>"
      and cur: "currentDXY x = dxy (last (x_data x))"
    by (elim exE conjE) (rule that; assumption)
  have pts: "x_data x ! (length (x_data x) - 1 - i) =
            \<lparr>x_date = formatDate fourPairs (datetime (eurValues ! i)),
             dxy = toFixed (jadd (jadd (jadd (jadd (Num 100)
                                     (jmul (toDouble (- 0.576)) (parseFloat (close (eurValues ! i)))))
                                     (jmul (toDouble 0.136) (parseFloat (close (jpyValues ! i)))))
                                     (jmul (toDouble (- 0.119)) (parseFloat (close (gbpValues ! i)))))
                                     (jmul (toDouble 0.091) (parseFloat (close (cadValues ! i))))) 1\<rparr>"
    if "i < length (x_data x)" for i
    using all [rule_format, OF that] .
  have len: "length (x_data x) = 2"
    using xlen by (simp add: lens)
  have d: "formatDate fourPairs ''2024-01-15'' = ''Jan 15, 2024''"
    "formatDate fourPairs ''2024-01-16'' = ''Jan 16, 2024''"
    by (simp_all add: fourPairs_def offline_def runtime_defs calendar_defs)
  have t1: "toFixed (jadd (jadd (jadd (jadd (Num 100)
              (jmul (toDouble (- 0.576)) (parseFloat ''1.0900'')))
              (jmul (toDouble 0.136) (parseFloat ''148.20'')))
              (jmul (toDouble (- 0.119)) (parseFloat ''1.2700'')))
              (jmul (toDouble 0.091) (parseFloat ''1.3500''))) 1 = ''119.5''"
    by (simp add: runtime_defs)
  have t0: "toFixed (jadd (jadd (jadd (jadd (Num 100)
              (jmul (toDouble (- 0.576)) (parseFloat ''1.0850'')))
              (jmul (toDouble 0.136) (parseFloat ''140.00'')))
              (jmul (toDouble (- 0.119)) (parseFloat ''1.2650'')))
              (jmul (toDouble 0.091) (parseFloat ''1.3450''))) 1 = ''118.4''"
    by (simp add: runtime_defs)
  have "x_data x ! (length (x_data x) - 1 - 0) = \<lparr>x_date = ''Jan 16, 2024'', dxy = ''119.5''\<rparr>"
    using t1 by (subst pts) (simp_all add: len eurValues_def jpyValues_def gbpValues_def cadValues_def d)
  then have n1: "x_data x ! 1 = \<lparr>x_date = ''Jan 16, 2024'', dxy = ''119.5''\<rparr>"
    using len by simp
  have "x_data x ! (length (x_data x) - 1 - 1) = \<lparr>x_date = ''Jan 15, 2024'', dxy = ''118.4''\<rparr>"
    using t0 by (subst pts) (simp_all add: len eurValues_def jpyValues_def gbpValues_def cadValues_def d)
  then have n0: "x_data x ! 0 = \<lparr>x_date = ''Jan 15, 2024'', dxy = ''118.4''\<rparr>"
    using len by simp
  have "last (x_data x) = x_data x ! 1"
  proof -
    from len have "x_data x \<noteq> []" by auto
    then show ?thesis using len by (simp add: last_conv_nth)
  qed
  with cur n1 have cur': "currentDXY x = ''119.5''"
    by simp
  have down: "fst (updateDollarIndex offline emptyWorld) = None"
    using updateDollarIndex_proxy [where e = offline and err = FetchFailed and p = "''EUR/USD''"
                                     and w = emptyWorld, THEN conjunct2]
    by (simp add: offline_def dxyPrimary_def pairs_def)
  show ?thesis
    using x src len n0 n1 cur' down by (intro conjI exI [of _ x]) simp_all
qed

section \<open>Fed policy: how the two series are paired\<close>

text \<open>
  What the callback of line 142 pairs with the observation at index \<open>i\<close> of the
  chronological rate series: at an even \<open>i\<close> the yield array has been reversed an odd
  number of times and is chronological; at an odd \<open>i\<close> it is back in the order the
  provider sent it, newest first.
\<close>

lemma combine_Some:
  "\<exists>paired. combine e idx obs (Some ry) = Inr paired \<and> length paired = length obs"
proof (induction obs arbitrary: idx ry)
  case Nil
  then show ?case by simp
next
  case (Cons ob obs)
  from Cons [of "Suc idx" "rev ry"] show ?case
    by (auto simp: Let_def)
qed

lemma combine_nth:
  "i < length obs \<Longrightarrow>
     \<exists>paired. combine e idx obs (Some ry) = Inr paired \<and> length paired = length obs
       \<and> paired ! i = fedPoint e (obs ! i) (elemAt (if even i then rev ry else ry) (idx + i))"
proof (induction obs arbitrary: idx ry i)
  case Nil
  then show ?case by simp
next
  case (Cons ob obs)
  obtain rest where rest: "combine e (Suc idx) obs (Some (rev ry)) = Inr rest" "length rest = length obs"
    using combine_Some by blast
  show ?case
  proof (cases i)
    case 0
    with rest show ?thesis by (simp add: Let_def)
  next
    case (Suc j)
    with Cons.prems have "j < length obs" by simp
    from Cons.IH [OF this, of "Suc idx" "rev ry"] rest
    have "rest ! j = fedPoint e (obs ! j) (elemAt (if even j then rev (rev ry) else rev ry) (Suc idx + j))"
      by simp
    with rest Suc show ?thesis by (simp add: Let_def)
  qed
qed

text \<open>
  C1. The combining step of the policy task does not pair the two series by matching
  chronological index. On two observations each (rates 5.33 then 5.30, yields 2.00
  then 1.90, newest first) the newest rate is paired with the oldest yield, and that
  pair is the current snapshot. On four observations each with the sentinel as the
  yield of 2024-01-16, that day is kept with the yield of 2024-01-17, and 2024-01-18
  carries the yield of 2024-01-15: no position is excluded.
\<close>

theorem updateFedData_pairs_odd_positions_newest_first:
  "fst (updateFedData twoDays emptyWorld)
     = Some \<lparr>f_lastUpdated = ''2024-01-16T06:00:00.000Z'',
             f_source = ''Federal Reserve Economic Data (FRED)'',
             currentFedRate = Some ''5.33'', currentRealYield = Some ''1.90'',
             f_data = [\<lparr>f_date = ''Jan 15, 2024'', fedRate = Some ''5.30'', realYield = Some ''1.90''\<rparr>,
                       \<lparr>f_date = ''Jan 16, 2024'', fedRate = Some ''5.33'', realYield = Some ''1.90''\<rparr>]\<rparr>
   \<and> fst (updateFedData fourDays emptyWorld)
     = Some \<lparr>f_lastUpdated = ''2024-01-16T06:00:00.000Z'',
             f_source = ''Federal Reserve Economic Data (FRED)'',
             currentFedRate = Some ''5.34'', currentRealYield = Some ''2.01'',
             f_data = [\<lparr>f_date = ''Jan 15, 2024'', fedRate = Some ''5.31'', realYield = Some ''2.01''\<rparr>,
                       \<lparr>f_date = ''Jan 16, 2024'', fedRate = Some ''5.32'', realYield = Some ''2.03''\<rparr>,
                       \<lparr>f_date = ''Jan 17, 2024'', fedRate = Some ''5.33'', realYield = Some ''2.03''\<rparr>,
                       \<lparr>f_date = ''Jan 18, 2024'', fedRate = Some ''5.34'', realYield = Some ''2.01''\<rparr>]\<rparr>"
proof -
  have f: "toFixed (parseFloat ''5.30'') 2 = ''5.30''" "toFixed (parseFloat ''5.31'') 2 = ''5.31''"
      "toFixed (parseFloat ''5.32'') 2 = ''5.32''" "toFixed (parseFloat ''5.33'') 2 = ''5.33''"
      "toFixed (parseFloat ''5.34'') 2 = ''5.34''"
      "toFixed (parseFloat ''1.90'') 2 = ''1.90''" "toFixed (parseFloat ''2.00'') 2 = ''2.00''"
      "toFixed (parseFloat ''2.01'') 2 = ''2.01''" "toFixed (parseFloat ''2.03'') 2 = ''2.03''"
      "toFixed (parseFloat ''2.04'') 2 = ''2.04''"
    by (simp_all add: runtime_defs)
  have d: "formatDate_of (utcDay ''2024-01-15'') = ''Jan 15, 2024''"
      "formatDate_of (utcDay ''2024-01-16'') = ''Jan 16, 2024''"
      "formatDate_of (utcDay ''2024-01-17'') = ''Jan 17, 2024''"
      "formatDate_of (utcDay ''2024-01-18'') = ''Jan 18, 2024''"
    by (simp_all add: runtime_defs calendar_defs)
  have u: "fredUrl twoDays s = fredUrl offline s" "fredUrl fourDays s = fredUrl offline s" for s
    by (simp_all add: twoDays_def fourDays_def fredUrl_def)
  have two: "fst (updateFedData twoDays emptyWorld)
     = Some \<lparr>f_lastUpdated = ''2024-01-16T06:00:00.000Z'',
             f_source = ''Federal Reserve Economic Data (FRED)'',
             currentFedRate = Some ''5.33'', currentRealYield = Some ''1.90'',
             f_data = [\<lparr>f_date = ''Jan 15, 2024'', fedRate = Some ''5.30'', realYield = Some ''1.90''\<rparr>,
                       \<lparr>f_date = ''Jan 16, 2024'', fedRate = Some ''5.33'', realYield = Some ''1.90''\<rparr>]\<rparr>"
    by (simp add: updateFedData_def u Let_def)
       (simp add: twoDays_def offline_def fredUrl_def fredFeed_def fedFromFred_def fedPoint_def
          elemAt_def complete_def formatDate_def f d Let_def)
  have four: "fst (updateFedData fourDays emptyWorld)
     = Some \<lparr>f_lastUpdated = ''2024-01-16T06:00:00.000Z'',
             f_source = ''Federal Reserve Economic Data (FRED)'',
             currentFedRate = Some ''5.34'', currentRealYield = Some ''2.01'',
             f_data = [\<lparr>f_date = ''Jan 15, 2024'', fedRate = Some ''5.31'', realYield = Some ''2.01''\<rparr>,
                       \<lparr>f_date = ''Jan 16, 2024'', fedRate = Some ''5.32'', realYield = Some ''2.03''\<rparr>,
                       \<lparr>f_date = ''Jan 17, 2024'', fedRate = Some ''5.33'', realYield = Some ''2.03''\<rparr>,
                       \<lparr>f_date = ''Jan 18, 2024'', fedRate = Some ''5.34'', realYield = Some ''2.01''\<rparr>]\<rparr>"
    by (simp add: updateFedData_def u Let_def)
       (simp add: fourDays_def offline_def fredUrl_def fredFeed_def fedFromFred_def fedPoint_def
          elemAt_def complete_def formatDate_def f d Let_def)
  from two four show ?thesis by (rule conjI)
qed

section \<open>Dates\<close>

lemma digit_char: "k < 10 \<Longrightarrow> isDigit (''0123456789'' ! k)"
proof -
  assume "k < 10"
  then have "k \<in> {0, 1, 2, 3, 4, 5, 6, 7, 8, 9}"
    by auto
  then show ?thesis
    by (auto simp: isDigit_def)
qed

lemma showNat_digits: "list_all isDigit (showNat n)"
proof (induction n rule: showNat.induct)
  case (1 n)
  show ?case
  proof (cases "n < 10")
    case True
    then show ?thesis
      by (subst showNat.simps) (simp add: digit_char)
  next
    case False
    with 1 show ?thesis
      by (subst showNat.simps) (simp add: digit_char)
  qed
qed

lemma showNat_length_step:
  "length (showNat n) = (if n < 10 then 1 else Suc (length (showNat (n div 10))))"
  by (subst showNat.simps) simp

lemma showNat_length_day: "1 \<le> d \<Longrightarrow> d \<le> 31 \<Longrightarrow> length (showNat d) = 1 \<or> length (showNat d) = 2"
proof -
  assume "1 \<le> d" "d \<le> 31"
  then have "d div 10 < 10"
    by simp
  then show ?thesis
    by (simp add: showNat_length_step [of d] showNat_length_step [of "d div 10"])
qed

lemma showNat_length_year: "1000 \<le> y \<Longrightarrow> y < 10000 \<Longrightarrow> length (showNat y) = 4"
proof -
  assume y: "1000 \<le> y" "y < 10000"
  have a: "\<not> y < 10" "\<not> y div 10 < 10" using y by simp_all
  have "y div 10 div 10 = y div 100" "y div 10 div 10 div 10 = y div 1000"
    by (simp_all add: div_mult2_eq [symmetric])
  with y have b: "\<not> y div 10 div 10 < 10" "y div 10 div 10 div 10 < 10"
    by simp_all
  show ?thesis
    using a b
    by (simp add: showNat_length_step [of y] showNat_length_step [of "y div 10"]
          showNat_length_step [of "y div 10 div 10"] showNat_length_step [of "y div 10 div 10 div 10"])
qed

lemma digitVal_le: "isDigit c \<Longrightarrow> digitVal c \<le> 9"
  by (auto simp: isDigit_def digitVal_def)

lemma digitsVal_snoc: "digitsVal (ds @ [c]) = 10 * digitsVal ds + digitVal c"
  by (simp add: digitsVal_def)

lemma digitsVal_bound: "list_all isDigit ds \<Longrightarrow> digitsVal ds < 10 ^ length ds"
proof (induction ds rule: rev_induct)
  case Nil
  then show ?case by (simp add: digitsVal_def)
next
  case (snoc c ds)
  then have "digitsVal ds < 10 ^ length ds" "digitVal c \<le> 9"
    by (simp_all add: digitVal_le)
  then show ?case
    by (simp add: digitsVal_snoc)
qed

lemma daysInMonth_le: "daysInMonth y m \<le> 31"
  by (simp add: daysInMonth_def)

text \<open>The reading of the sample runs gives days of the calendar only.\<close>

lemma utcDay_fields:
  assumes "utcDay s = Date y m d"
  shows "0 \<le> y \<and> y < 10000 \<and> m < 12 \<and> 1 \<le> d \<and> d \<le> 31"
proof -
  from assms have four: "list_all isDigit (take 4 s)" "length s = 10"
      and y: "y = int (digitsVal (take 4 s))"
      and md: "1 \<le> digitsVal (take 2 (drop 5 s))" "digitsVal (take 2 (drop 5 s)) \<le> 12"
              "m = digitsVal (take 2 (drop 5 s)) - 1"
              "1 \<le> d" "d \<le> daysInMonth (digitsVal (take 4 s)) (digitsVal (take 2 (drop 5 s)))"
    by (auto simp: utcDay_def Let_def split: if_splits)
  from digitsVal_bound [OF four(1)] four(2) y have "0 \<le> y \<and> y < 10000"
    by simp
  moreover from md have "m < 12"
    by simp
  moreover from md(5) daysInMonth_le [of "digitsVal (take 4 s)" "digitsVal (take 2 (drop 5 s))"]
  have "d \<le> 31"
    by simp
  ultimately show ?thesis
    using md(4) by simp
qed

lemma month_name: "m < 12 \<Longrightarrow> \<exists>a b c. months ! m = [a, b, c] \<and> [a, b, c] \<in> set months"
proof -
  assume "m < 12"
  then have "m < length months"
    by (simp add: months_def)
  then have "months ! m \<in> set months"
    by (rule nth_mem)
  moreover have "\<forall>x \<in> set months. \<exists>a b c. x = [a, b, c]"
    by (simp add: months_def)
  ultimately show ?thesis
    by metis
qed

lemma comma_not_digit: "\<not> isDigit CHR '',''"
  by (simp add: isDigit_def)

text \<open>
  What \<open>formatDate\<close> writes for a valid date with a year of four digits, and that it has
  the form of the specification.
\<close>

lemma formatDate_fields:
  assumes "newDate e s = Date y m d" and "0 \<le> y" and "m < 12"
  shows "formatDate e s = months ! m @ '' '' @ showNat d @ '', '' @ showNat (nat y)"
  using assms by (simp add: formatDate_def monthName_def showInt_def months_def)

lemma formatDate_shape:
  assumes "fourDigitDay (newDate e s)"
  shows "specDateShape (formatDate e s)"
proof -
  from assms obtain y m d where day: "newDate e s = Date y m d"
    by (cases "newDate e s") simp_all
  with assms have f: "1000 \<le> y" "y \<le> 9999" "m < 12" "1 \<le> d" "d \<le> 31"
    by simp_all
  then have year: "1000 \<le> nat y" "nat y < 10000"
    by simp_all
  from month_name [OF f(3)] obtain a b c where mn: "months ! m = [a, b, c]" "[a, b, c] \<in> set months"
    by blast
  have dd: "\<forall>x \<in> set (showNat d). isDigit x" and yd: "list_all isDigit (showNat (nat y))"
    using showNat_digits [of d] showNat_digits [of "nat y"] by (simp_all add: list_all_iff)
  have tw: "takeWhile isDigit (showNat d @ '', '' @ showNat (nat y)) = showNat d"
    using dd by (simp add: takeWhile_append2 comma_not_digit)
  have dw: "dropWhile isDigit (showNat d @ '', '' @ showNat (nat y)) = '', '' @ showNat (nat y)"
    using dd by (simp add: dropWhile_append2 comma_not_digit)
  have "formatDate e s = a # b # c # CHR '' '' # (showNat d @ '', '' @ showNat (nat y))"
    using formatDate_fields [OF day, of] f mn(1) by simp
  then show ?thesis
    using mn(2) tw dw showNat_length_day [OF f(4,5)] showNat_length_year [OF year] yd
    by (simp add: specDateShape_def Let_def)
qed

lemma iso_day_not_shaped: "\<not> specDateShape ''2024-01-15''"
  by (simp add: specDateShape_def months_def)


lemma odd_dates_not_shaped:
  "\<not> specDateShape ''undefined NaN, NaN''" "\<not> specDateShape ''Dec 31, 999''"
  by (simp_all add: specDateShape_def months_def isDigit_def)

subsection \<open>Where the dates of each record set come from\<close>

lemma jsonIfOk_jsonOf: "jsonIfOk r = Inr b \<Longrightarrow> jsonOf r = Inr b"
  by (cases r rule: jsonOf.cases) (simp_all split: if_splits)

lemma goldPrimary_dates:
  assumes "goldPrimary e r = Inr g"
  shows "g_source g = ''Twelve Data API''
       \<and> (\<forall>p \<in> set (history g). \<exists>s \<in> set (tdDays r). p_date p = formatDate e s)"
proof -
  from assms obtain data vals where d: "jsonIfOk r = Inr data" "td_values data = Some vals"
      and g: "g_source g = ''Twelve Data API''"
             "history g = map (\<lambda>d. \<lparr>p_date = formatDate e (datetime d),
                                        price = mathRound (parseFloat (close d))\<rparr>)
                            (rev (take 180 vals))"
    by (auto simp: goldPrimary_def split: sum.splits option.splits list.splits if_splits)
  have days: "tdDays r = map datetime vals"
    using jsonIfOk_jsonOf [OF d(1)] d(2) by (simp add: tdDays_def)
  have "\<exists>s \<in> set (tdDays r). p_date p = formatDate e s" if "p \<in> set (history g)" for p
  proof -
    from that g(2) obtain v where "v \<in> set (take 180 vals)" "p_date p = formatDate e (datetime v)"
      by auto
    then show ?thesis
      unfolding days using set_take_subset [of 180 vals] by auto
  qed
  with g(1) show ?thesis
    by blast
qed

lemma goldFallback_dates:
  assumes "goldFallback e r = Inr g"
  shows "g_source g = ''Alpha Vantage API (fallback)''
       \<and> (\<forall>p \<in> set (history g). \<exists>s \<in> set (avDays r). p_date p = formatDate e s)"
proof -
  from assms obtain data ts where d: "jsonOf r = Inr data" "av_series data = Some ts"
      and g: "g_source g = ''Alpha Vantage API (fallback)''"
             "history g = map (\<lambda>(date, close4). \<lparr>p_date = formatDate e date,
                                                  price = mathRound (parseFloat close4)\<rparr>)
                            (rev (take 180 ts))"
    by (auto simp: goldFallback_def Let_def split: sum.splits option.splits if_splits)
  have days: "avDays r = map fst ts"
    using d by (simp add: avDays_def)
  have "\<exists>s \<in> set (avDays r). p_date p = formatDate e s" if "p \<in> set (history g)" for p
  proof -
    from that g(2) obtain date close4 where "(date, close4) \<in> set (take 180 ts)"
        "p_date p = formatDate e date"
      by auto
    then show ?thesis
      unfolding days using set_take_subset [of 180 ts] by force
  qed
  with g(1) show ?thesis
    by blast
qed

lemma updateGoldPrice_dates:
  assumes "updateGoldPrice e w = (Some g, w')"
  shows "gold_price_json w' = Some g
       \<and> (\<forall>p \<in> set (history g).
             \<exists>s \<in> set (if g_source g = ''Twelve Data API'' then tdDays (twelveData e (goldUrl e))
                         else avDays (alphaVantage e (goldFallbackUrl e))).
               p_date p = formatDate e s)"
proof (cases "goldPrimary e (twelveData e (goldUrl e))")
  case (Inr y)
  with assms have "y = g" "gold_price_json w' = Some g"
    by (auto simp: updateGoldPrice_def Let_def)
  with Inr goldPrimary_dates [of e "twelveData e (goldUrl e)" g] show ?thesis
    by simp
next
  case (Inl err)
  with assms have fb: "goldFallback e (alphaVantage e (goldFallbackUrl e)) = Inr g"
      and saved: "gold_price_json w' = Some g"
    by (auto simp: updateGoldPrice_def Let_def split: sum.splits)
  from goldFallback_dates [OF fb] saved show ?thesis
    by simp
qed

lemma combine_dates:
  "combine e idx obs ry = Inr paired \<Longrightarrow>
     \<forall>p \<in> set paired. \<exists>ob \<in> set obs. f_date p = formatDate e (obs_date ob)"
proof (induction obs arbitrary: idx ry paired)
  case Nil
  then show ?case by simp
next
  case (Cons ob rest)
  show ?case
  proof (cases ry)
    case None
    with Cons.prems show ?thesis by simp
  next
    case (Some r)
    with Cons.prems obtain others where rest: "combine e (Suc idx) rest (Some (rev r)) = Inr others"
        and paired: "paired = fedPoint e ob (elemAt (rev r) idx) # others"
      by (auto simp: Let_def split: sum.splits)
    from Cons.IH [OF rest] paired show ?thesis
      by (auto simp: fedPoint_def)
  qed
qed

lemma fedFromFred_dates:
  assumes "fedFromFred e a b = Inr f"
  shows "\<exists>dff. observations a = Some dff
           \<and> (\<forall>p \<in> set (f_data f). \<exists>s \<in> set (map obs_date dff). f_date p = formatDate e s)"
proof -
  from assms obtain dff paired where a: "observations a = Some dff"
      and p: "combine e 0 (rev dff) (observations b) = Inr paired"
      and f: "f_data f = drop (length (filter complete paired) - 180) (filter complete paired)"
    by (auto simp: fedFromFred_def Let_def split: if_splits option.splits sum.splits)
  have "set (f_data f) \<subseteq> set paired"
    unfolding f using set_drop_subset [of _ "filter complete paired"] by auto
  with combine_dates [OF p] have "\<forall>p \<in> set (f_data f). \<exists>s \<in> set (map obs_date dff). f_date p = formatDate e s"
    by fastforce
  with a show ?thesis
    by blast
qed

lemma updateFedData_dates:
  assumes "updateFedData e w = (Some f, w')"
  shows "fed_policy_json w' = Some f
       \<and> (\<forall>p \<in> set (f_data f).
             \<exists>s \<in> set (fredDays (fred e (fredUrl e ''DFF''))). f_date p = formatDate e s)"
proof -
  from assms obtain a b where a: "jsonOf (fred e (fredUrl e ''DFF'')) = Inr a"
      and f: "fedFromFred e a b = Inr f" and saved: "fed_policy_json w' = Some f"
    by (auto simp: updateFedData_def Let_def split: sum.splits)
  from fedFromFred_dates [OF f] obtain dff where "observations a = Some dff"
      "\<forall>p \<in> set (f_data f). \<exists>s \<in> set (map obs_date dff). f_date p = formatDate e s"
    by blast
  with a saved show ?thesis
    by (simp add: fredDays_def)
qed

lemma dxyPrimary_dates:
  assumes "dxyPrimary e r = Inr x"
  shows "x_source x = ''Twelve Data API''
       \<and> (\<forall>p \<in> set (x_data x). \<exists>s \<in> set (tdDays r). x_date p = formatDate e s)"
proof -
  from assms obtain data vals where d: "jsonIfOk r = Inr data" "td_values data = Some vals"
      and x: "x_source x = ''Twelve Data API''"
             "x_data x = map (\<lambda>d. \<lparr>x_date = formatDate e (datetime d),
                                       dxy = toFixed (parseFloat (close d)) 1\<rparr>)
                           (rev (take 180 vals))"
    by (auto simp: dxyPrimary_def split: sum.splits option.splits list.splits if_splits)
  have days: "tdDays r = map datetime vals"
    using jsonIfOk_jsonOf [OF d(1)] d(2) by (simp add: tdDays_def)
  have "\<exists>s \<in> set (tdDays r). x_date p = formatDate e s" if "p \<in> set (x_data x)" for p
  proof -
    from that x(2) obtain v where "v \<in> set (take 180 vals)" "x_date p = formatDate e (datetime v)"
      by auto
    then show ?thesis
      unfolding days using set_take_subset [of 180 vals] by auto
  qed
  with x(1) show ?thesis
    by blast
qed

lemma proxyFrom_dates:
  "proxyFrom e pd len i = Inr pts \<Longrightarrow>
     \<forall>p \<in> set pts. \<exists>vals. map_of pd (pairs ! 0) = Some vals
        \<and> (\<exists>v \<in> set vals. x_date p = formatDate e (datetime v))"
proof (induction e pd len i arbitrary: pts rule: proxyFrom.induct)
  case (1 e pd len i)
  show ?case
  proof (cases "i < len")
    case False
    with "1.prems" show ?thesis
      by (subst (asm) proxyFrom.simps) simp
  next
    case True
    from "1.prems" True obtain weightedSum vals v others
      where s: "weightedSumAt pd i pairs (Num 100) = Inr weightedSum"
        and m: "map_of pd (pairs ! 0) = Some vals" and v: "elemAt vals i = Some v"
        and r: "proxyFrom e pd len (Suc i) = Inr others"
        and pts: "pts = \<lparr>x_date = formatDate e (datetime v), dxy = toFixed weightedSum 1\<rparr> # others"
      by (subst (asm) proxyFrom.simps) (auto split: sum.splits option.splits)
    from v have "v \<in> set vals"
      by (auto simp: elemAt_def split: if_splits)
    with "1.IH" [OF True s m v r] pts m show ?thesis
      by auto
  qed
qed

lemma dxyProxyData_dates:
  assumes "dxyProxyData e pd = Inr x"
  shows "x_source x = ''Calculated DXY Proxy''
       \<and> (\<forall>p \<in> set (x_data x). \<exists>vals. map_of pd (pairs ! 0) = Some vals
              \<and> (\<exists>v \<in> set vals. x_date p = formatDate e (datetime v)))"
proof -
  from assms obtain len pts where p: "proxyFrom e pd len 0 = Inr pts"
      and x: "x_source x = ''Calculated DXY Proxy''" "x_data x = rev pts"
    by (auto simp: dxyProxyData_def split: option.splits sum.splits list.splits)
  from proxyFrom_dates [OF p] x show ?thesis
    by simp
qed

lemma fetched_first_pair:
  assumes "fetchPairs e pairs [] w = (Inr pd, w')" and "map_of pd (pairs ! 0) = Some vals"
  shows "tdDays (twelveData e (pairUrl e ''EUR/USD'')) = map datetime vals"
proof -
  from fetchPairs_Inr [OF assms(1)] assms(2) show ?thesis
    by (simp add: pairs_def tdDays_def split: sum.splits option.splits)
qed

lemma updateDollarIndex_dates:
  assumes "updateDollarIndex e w = (Some x, w')"
  shows "dollar_index_json w' = Some x
       \<and> (\<forall>p \<in> set (x_data x).
             \<exists>s \<in> set (if x_source x = ''Twelve Data API'' then tdDays (twelveData e (dxyUrl e))
                         else tdDays (twelveData e (pairUrl e ''EUR/USD''))).
               x_date p = formatDate e s)"
proof (cases "dxyPrimary e (twelveData e (dxyUrl e))")
  case (Inr y)
  with assms have "y = x" "dollar_index_json w' = Some x"
    by (auto simp: updateDollarIndex_def Let_def)
  with Inr dxyPrimary_dates [of e "twelveData e (dxyUrl e)" x] show ?thesis
    by simp
next
  case (Inl err)
  obtain r w2 where f: "fetchPairs e pairs [] (sent (dxyUrl e) w) = (r, w2)"
    using fetchPairs_total by blast
  with assms Inl obtain pd where pd: "r = Inr pd" and x: "dxyProxyData e pd = Inr x"
      and saved: "dollar_index_json w' = Some x"
    by (auto simp: updateDollarIndex_def Let_def split: sum.splits)
  from dxyProxyData_dates [OF x] have src: "x_source x = ''Calculated DXY Proxy''"
      and each: "\<forall>p \<in> set (x_data x). \<exists>vals. map_of pd (pairs ! 0) = Some vals
              \<and> (\<exists>v \<in> set vals. x_date p = formatDate e (datetime v))"
    by simp_all
  have "\<exists>s \<in> set (tdDays (twelveData e (pairUrl e ''EUR/USD''))). x_date p = formatDate e s"
    if "p \<in> set (x_data x)" for p
  proof -
    from each that obtain vals v where m: "map_of pd (pairs ! 0) = Some vals"
        and v: "v \<in> set vals" "x_date p = formatDate e (datetime v)"
      by blast
    from f pd have "fetchPairs e pairs [] (sent (dxyUrl e) w) = (Inr pd, w2)"
      by simp
    from fetched_first_pair [OF this m] v show ?thesis
      by auto
  qed
  with src saved show ?thesis
    by simp
qed

lemma toEvent_date:
  "toEvent a = Inr ev \<Longrightarrow> \<exists>published. publishedAt a = Some published \<and> e_date ev = beforeT published"
  by (auto simp: toEvent_def Let_def split: option.splits)

lemma toEvents_each:
  "toEvents arts = Inr evs \<Longrightarrow> \<forall>ev \<in> set evs. \<exists>a \<in> set arts. toEvent a = Inr ev"
proof (induction arts arbitrary: evs)
  case Nil
  then show ?case by simp
next
  case (Cons a arts)
  then show ?case
    by (auto split: sum.splits)
qed

lemma updateGeopoliticalEvents_dates:
  assumes "updateGeopoliticalEvents e w = (Some n, w')"
  shows "geopolitical_events_json w' = Some n
       \<and> (\<exists>ok data arts.
             newsApi e (newsUrl e) = Response ok (Some data) \<and> articles data = Some arts
             \<and> (\<forall>ev \<in> set (events n).
                   \<exists>a \<in> set arts. \<exists>published.
                     publishedAt a = Some published \<and> e_date ev = beforeT published))"
proof -
  from assms have key: "truthy (NEWS_API_KEY e)"
    by (auto simp: updateGeopoliticalEvents_def split: if_splits)
  with assms have geo: "geoFromNews e (newsApi e (newsUrl e)) = Inr n"
      and saved: "geopolitical_events_json w' = Some n"
    by (auto simp: updateGeopoliticalEvents_def Let_def split: sum.splits)
  from geo obtain ok data where r: "newsApi e (newsUrl e) = Response ok (Some data)"
    by (cases "newsApi e (newsUrl e)" rule: jsonOf.cases) (auto simp: geoFromNews_def)
  from geo r obtain arts where arts: "articles data = Some arts"
    by (cases "articles data") (auto simp: geoFromNews_def split: if_splits)
  from geo r arts obtain evs where evs: "toEvents arts = Inr evs" "events n = take 15 evs"
    by (cases "toEvents arts") (auto simp: geoFromNews_def split: if_splits)
  have sub: "set (events n) \<subseteq> set evs"
    using evs(2) by (simp add: set_take_subset)
  have "\<exists>a \<in> set arts. \<exists>published. publishedAt a = Some published \<and> e_date ev = beforeT published"
    if "ev \<in> set (events n)" for ev
  proof -
    from that sub toEvents_each [OF evs(1)] obtain a where a: "a \<in> set arts" "toEvent a = Inr ev"
      by blast
    from toEvent_date [OF a(2)] a(1) show ?thesis
      by blast
  qed
  with r arts saved show ?thesis
    by blast
qed

section \<open>The form of persisted dates\<close>

text \<open>
  C7, as the specification states it, fails in three ways. An article published at
  \<open>2024-01-15T08:00:00Z\<close> is persisted with the date \<open>2024-01-15\<close>, the text before the
  \<open>T\<close>: the events task does not call \<open>formatDate\<close>. A price point whose date text the
  platform cannot read (\<open>n/a\<close>) is persisted with the date \<open>undefined NaN, NaN\<close>, and
  one of the year 999 with \<open>Dec 31, 999\<close>: \<open>formatDate\<close> checks neither. None of the
  three texts has the form \<open>Jan 15, 2024\<close>.
\<close>

theorem persisted_dates_outside_the_form:
  "fst (updateGeopoliticalEvents oneStory emptyWorld)
     = Some \<lparr>n_lastUpdated = ''2024-01-16T06:00:00.000Z'', n_source = ''NewsAPI'',
             events = [\<lparr>e_date = ''2024-01-15'', event = ''Gold steady'', e_severity = Low,
                        e_impact = Neutral, e_url = Some ''https://example.org/gold''\<rparr>]\<rparr>
   \<and> geopolitical_events_json (snd (updateGeopoliticalEvents oneStory emptyWorld))
     = fst (updateGeopoliticalEvents oneStory emptyWorld)
   \<and> \<not> specDateShape ''2024-01-15''
   \<and> fst (updateGoldPrice oddDates emptyWorld)
     = Some \<lparr>g_lastUpdated = ''2024-01-16T06:00:00.000Z'', currentPrice = Num 2034.5,
             g_source = ''Twelve Data API'',
             history = [\<lparr>p_date = ''Dec 31, 999'', price = Num 2029\<rparr>,
                        \<lparr>p_date = ''undefined NaN, NaN'', price = Num 2035\<rparr>]\<rparr>
   \<and> gold_price_json (snd (updateGoldPrice oddDates emptyWorld))
     = fst (updateGoldPrice oddDates emptyWorld)
   \<and> \<not> specDateShape ''Dec 31, 999''
   \<and> \<not> specDateShape ''undefined NaN, NaN''"
proof -
  have "beforeT ''2024-01-15T08:00:00Z'' = ''2024-01-15''"
    by (simp add: beforeT_def)
  then have news: "updateGeopoliticalEvents oneStory emptyWorld
     = (Some \<lparr>n_lastUpdated = ''2024-01-16T06:00:00.000Z'', n_source = ''NewsAPI'',
             events = [\<lparr>e_date = ''2024-01-15'', event = ''Gold steady'', e_severity = Low,
                        e_impact = Neutral, e_url = Some ''https://example.org/gold''\<rparr>]\<rparr>,
        (sent (newsUrl oneStory) emptyWorld)
          \<lparr>geopolitical_events_json :=
             Some \<lparr>n_lastUpdated = ''2024-01-16T06:00:00.000Z'', n_source = ''NewsAPI'',
             events = [\<lparr>e_date = ''2024-01-15'', event = ''Gold steady'', e_severity = Low,
                        e_impact = Neutral, e_url = Some ''https://example.org/gold''\<rparr>]\<rparr>\<rparr>)"
    by (simp add: updateGeopoliticalEvents_def geoFromNews_def oneStory_def offline_def story_event
          Let_def)
  have p: "parseFloat ''2034.50'' = Num 2034.5" "mathRound (parseFloat ''2034.50'') = Num 2035"
      "mathRound (parseFloat ''2029.25'') = Num 2029"
    by (simp_all add: runtime_defs)
  have d: "formatDate oddDates ''n/a'' = ''undefined NaN, NaN''"
      "formatDate oddDates ''0999-12-31'' = ''Dec 31, 999''"
    by (simp_all add: oddDates_def offline_def runtime_defs calendar_defs)
  have u: "goldUrl oddDates = goldUrl offline"
    by (simp add: oddDates_def goldUrl_def)
  have feed: "twelveData oddDates (goldUrl oddDates)
     = Response True
          (Some \<lparr>td_status = Some ''ok'',
                 td_values = Some [\<lparr>datetime = ''n/a'', close = ''2034.50''\<rparr>,
                                   \<lparr>datetime = ''0999-12-31'', close = ''2029.25''\<rparr>]\<rparr>)"
    by (simp add: u) (simp add: oddDates_def)
  have nowOdd: "now oddDates = ''2024-01-16T06:00:00.000Z''"
    by (simp add: oddDates_def offline_def)
  have gold: "updateGoldPrice oddDates emptyWorld
     = (Some \<lparr>g_lastUpdated = ''2024-01-16T06:00:00.000Z'', currentPrice = Num 2034.5,
             g_source = ''Twelve Data API'',
             history = [\<lparr>p_date = ''Dec 31, 999'', price = Num 2029\<rparr>,
                        \<lparr>p_date = ''undefined NaN, NaN'', price = Num 2035\<rparr>]\<rparr>,
        (sent (goldUrl oddDates) emptyWorld)
          \<lparr>gold_price_json :=
             Some \<lparr>g_lastUpdated = ''2024-01-16T06:00:00.000Z'', currentPrice = Num 2034.5,
             g_source = ''Twelve Data API'',
             history = [\<lparr>p_date = ''Dec 31, 999'', price = Num 2029\<rparr>,
                        \<lparr>p_date = ''undefined NaN, NaN'', price = Num 2035\<rparr>]\<rparr>\<rparr>)"
    by (simp add: updateGoldPrice_def goldPrimary_def feed nowOdd p d Let_def)
  show ?thesis
    using news gold iso_day_not_shaped odd_dates_not_shaped by simp
qed

text \<open>
  C7, amended. Every date persisted in the price, macro-policy and index record sets is
  \<open>formatDate\<close> of a date text that the provider of that record set sent: the text is
  parsed (\<open>new Date\<close>), and what is written is made of the year, the month and the day
  of the month of the result and of nothing else, so the time of day is discarded.
  Whenever the text parses to a valid date with a year of four digits, the persisted
  date has the form \<open><3-letter month> <day>, <4-digit year>\<close>. The record set is the one
  written to the file. The date of a persisted event is the text of the article's
  \<open>publishedAt\<close> before its first \<open>T\<close>, in the provider's own form.
\<close>

theorem persisted_dates:
  "(fourDigitDay (newDate e s) \<longrightarrow> specDateShape (formatDate e s))
   \<and> (newDate e s = Date y m d \<and> 0 \<le> y \<and> m < 12 \<longrightarrow>
         formatDate e s = months ! m @ '' '' @ showNat d @ '', '' @ showNat (nat y))
   \<and> (updateGoldPrice e w = (Some g, wGold) \<longrightarrow>
         gold_price_json wGold = Some g
         \<and> (\<forall>p \<in> set (history g).
               \<exists>s \<in> set (if g_source g = ''Twelve Data API'' then tdDays (twelveData e (goldUrl e))
                           else avDays (alphaVantage e (goldFallbackUrl e))).
                 p_date p = formatDate e s
                 \<and> (fourDigitDay (newDate e s) \<longrightarrow> specDateShape (p_date p))))
   \<and> (updateFedData e w = (Some f, wFed) \<longrightarrow>
         fed_policy_json wFed = Some f
         \<and> (\<forall>p \<in> set (f_data f).
               \<exists>s \<in> set (fredDays (fred e (fredUrl e ''DFF''))).
                 f_date p = formatDate e s
                 \<and> (fourDigitDay (newDate e s) \<longrightarrow> specDateShape (f_date p))))
   \<and> (updateDollarIndex e w = (Some x, wIndex) \<longrightarrow>
         dollar_index_json wIndex = Some x
         \<and> (\<forall>p \<in> set (x_data x).
               \<exists>s \<in> set (if x_source x = ''Twelve Data API'' then tdDays (twelveData e (dxyUrl e))
                           else tdDays (twelveData e (pairUrl e ''EUR/USD''))).
                 x_date p = formatDate e s
                 \<and> (fourDigitDay (newDate e s) \<longrightarrow> specDateShape (x_date p))))
   \<and> (updateGeopoliticalEvents e w = (Some n, wNews) \<longrightarrow>
         geopolitical_events_json wNews = Some n
         \<and> (\<exists>ok data arts.
               newsApi e (newsUrl e) = Response ok (Some data) \<and> articles data = Some arts
               \<and> (\<forall>ev \<in> set (events n).
                     \<exists>a \<in> set arts. \<exists>published.
                       publishedAt a = Some published \<and> e_date ev = beforeT published)))"
proof (intro conjI impI)
  assume "fourDigitDay (newDate e s)"
  then show "specDateShape (formatDate e s)"
    by (rule formatDate_shape)
next
  assume "newDate e s = Date y m d \<and> 0 \<le> y \<and> m < 12"
  then show "formatDate e s = months ! m @ '' '' @ showNat d @ '', '' @ showNat (nat y)"
    using formatDate_fields [of e s y m d] by blast
next
  assume "updateGoldPrice e w = (Some g, wGold)"
  then show "gold_price_json wGold = Some g"
    using updateGoldPrice_dates by blast
next
  assume "updateGoldPrice e w = (Some g, wGold)"
  from updateGoldPrice_dates [OF this]
  show "\<forall>p \<in> set (history g).
               \<exists>s \<in> set (if g_source g = ''Twelve Data API'' then tdDays (twelveData e (goldUrl e))
                           else avDays (alphaVantage e (goldFallbackUrl e))).
                 p_date p = formatDate e s
                 \<and> (fourDigitDay (newDate e s) \<longrightarrow> specDateShape (p_date p))"
    using formatDate_shape [of e] by metis
next
  assume "updateFedData e w = (Some f, wFed)"
  then show "fed_policy_json wFed = Some f"
    using updateFedData_dates by blast
next
  assume "updateFedData e w = (Some f, wFed)"
  from updateFedData_dates [OF this]
  show "\<forall>p \<in> set (f_data f).
               \<exists>s \<in> set (fredDays (fred e (fredUrl e ''DFF''))).
                 f_date p = formatDate e s
                 \<and> (fourDigitDay (newDate e s) \<longrightarrow> specDateShape (f_date p))"
    using formatDate_shape [of e] by metis
next
  assume "updateDollarIndex e w = (Some x, wIndex)"
  then show "dollar_index_json wIndex = Some x"
    using updateDollarIndex_dates by blast
next
  assume "updateDollarIndex e w = (Some x, wIndex)"
  from updateDollarIndex_dates [OF this]
  show "\<forall>p \<in> set (x_data x).
               \<exists>s \<in> set (if x_source x = ''Twelve Data API'' then tdDays (twelveData e (dxyUrl e))
                           else tdDays (twelveData e (pairUrl e ''EUR/USD''))).
                 x_date p = formatDate e s
                 \<and> (fourDigitDay (newDate e s) \<longrightarrow> specDateShape (x_date p))"
    using formatDate_shape [of e] by metis
next
  assume "updateGeopoliticalEvents e w = (Some n, wNews)"
  then show "geopolitical_events_json wNews = Some n"
    using updateGeopoliticalEvents_dates by blast
next
  assume "updateGeopoliticalEvents e w = (Some n, wNews)"
  from updateGeopoliticalEvents_dates [OF this]
  show "\<exists>ok data arts.
               newsApi e (newsUrl e) = Response ok (Some data) \<and> articles data = Some arts
               \<and> (\<forall>ev \<in> set (events n).
                     \<exists>a \<in> set arts. \<exists>published.
                       publishedAt a = Some published \<and> e_date ev = beforeT published)"
    by (rule conjunct2)
qed

theorem persisted_dates_witness:
  "fourDigitDay (newDate allUp ''2024-01-15'')
   \<and> newDate allUp ''2024-01-15'' = Date 2024 0 15
   \<and> specDateShape (formatDate allUp ''2024-01-15'')
   \<and> formatDate allUp ''2024-01-15'' = ''Jan 15, 2024''
   \<and> (\<exists>g wGold. updateGoldPrice allUp emptyWorld = (Some g, wGold)
          \<and> gold_price_json wGold = Some g \<and> history g \<noteq> []
          \<and> (\<forall>p \<in> set (history g). specDateShape (p_date p)))
   \<and> (\<exists>f wFed. updateFedData allUp emptyWorld = (Some f, wFed)
          \<and> fed_policy_json wFed = Some f \<and> f_data f \<noteq> []
          \<and> (\<forall>p \<in> set (f_data f). specDateShape (f_date p)))
   \<and> (\<exists>x wIndex. updateDollarIndex allUp emptyWorld = (Some x, wIndex)
          \<and> dollar_index_json wIndex = Some x \<and> x_data x \<noteq> []
          \<and> (\<forall>p \<in> set (x_data x). specDateShape (x_date p)))
   \<and> (\<exists>n wNews. updateGeopoliticalEvents allUp emptyWorld = (Some n, wNews)
          \<and> geopolitical_events_json wNews = Some n \<and> events n \<noteq> []
          \<and> (\<forall>ev \<in> set (events n). e_date ev = ''2024-01-15''))"
proof -
  have parser: "newDate allUp = utcDay"
    by (simp add: allUp_def offline_def)
  have day: "newDate allUp ''2024-01-15'' = Date 2024 0 15"
      and day': "newDate allUp ''2024-01-16'' = Date 2024 0 16"
    by (simp_all add: parser runtime_defs calendar_defs)
  have valid: "fourDigitDay (newDate allUp ''2024-01-15'')" "fourDigitDay (newDate allUp ''2024-01-16'')"
    by (simp_all add: day day')
  have fu: "fredUrl allUp s = fredUrl offline s" for s
    by (simp add: allUp_def fredUrl_def)
  have goldRun: "\<exists>g wGold. updateGoldPrice allUp emptyWorld = (Some g, wGold)
                   \<and> g_source g = ''Twelve Data API'' \<and> history g \<noteq> []"
    by (simp add: updateGoldPrice_def goldPrimary_def allUp_def goldFeed_def Let_def)
  then obtain g wGold where g: "updateGoldPrice allUp emptyWorld = (Some g, wGold)"
      "g_source g = ''Twelve Data API''" "history g \<noteq> []"
    by (elim exE conjE)
  have fx: "toFixed (parseFloat ''5.33'') 2 = ''5.33''" "toFixed (parseFloat ''5.30'') 2 = ''5.30''"
      "toFixed (parseFloat ''2.00'') 2 = ''2.00''" "toFixed (parseFloat ''1.90'') 2 = ''1.90''"
    by (simp_all add: runtime_defs)
  have fedRun: "\<exists>f wFed. updateFedData allUp emptyWorld = (Some f, wFed) \<and> f_data f \<noteq> []"
    by (simp add: updateFedData_def fu Let_def)
       (simp add: allUp_def twoDays_def offline_def fredUrl_def fredFeed_def fedFromFred_def
          fedPoint_def elemAt_def complete_def fx Let_def)
  then obtain f wFed where f: "updateFedData allUp emptyWorld = (Some f, wFed)" "f_data f \<noteq> []"
    by (elim exE conjE)
  have indexRun: "\<exists>x wIndex. updateDollarIndex allUp emptyWorld = (Some x, wIndex)
                   \<and> x_source x = ''Twelve Data API'' \<and> x_data x \<noteq> []"
    by (simp add: updateDollarIndex_def dxyPrimary_def allUp_def goldFeed_def Let_def)
  then obtain x wIndex where x: "updateDollarIndex allUp emptyWorld = (Some x, wIndex)"
      "x_source x = ''Twelve Data API''" "x_data x \<noteq> []"
    by (elim exE conjE)
  have newsRun: "\<exists>n wNews. updateGeopoliticalEvents allUp emptyWorld = (Some n, wNews) \<and> events n \<noteq> []"
    by (simp add: updateGeopoliticalEvents_def geoFromNews_def allUp_def oneStory_def offline_def
          story_event Let_def)
  then obtain n wNews where n: "updateGeopoliticalEvents allUp emptyWorld = (Some n, wNews)"
      "events n \<noteq> []"
    by (elim exE conjE)
  have sentGold: "tdDays (twelveData allUp (goldUrl allUp)) = [''2024-01-16'', ''2024-01-15'']"
      and sentIndex: "tdDays (twelveData allUp (dxyUrl allUp)) = [''2024-01-16'', ''2024-01-15'']"
    by (simp_all add: tdDays_def allUp_def goldFeed_def)
  have sentFed: "fredDays (fred allUp (fredUrl allUp ''DFF'')) = [''2024-01-16'', ''2024-01-15'']"
    by (simp add: fu) (simp add: fredDays_def allUp_def twoDays_def fredUrl_def fredFeed_def)
  have sentNews: "newsApi allUp (newsUrl allUp)
     = Response True (Some \<lparr>news_status = Some ''ok'', articles = Some [story ''2024-01-15'']\<rparr>)"
    by (simp add: allUp_def oneStory_def)
  note c = persisted_dates [where s = "''2024-01-15''" and y = 2024 and m = 0 and d = 15
             and e = allUp and w = emptyWorld and g = g and wGold = wGold and f = f and wFed = wFed
             and x = x and wIndex = wIndex and n = n and wNews = wNews]
  from c valid(1) have shape: "specDateShape (formatDate allUp ''2024-01-15'')"
    by (elim conjE) simp
  from c day have "formatDate allUp ''2024-01-15'' = months ! 0 @ '' '' @ showNat 15 @ '', '' @ showNat (nat 2024)"
    by (elim conjE) simp
  then have fmt: "formatDate allUp ''2024-01-15'' = ''Jan 15, 2024''"
    by (simp add: months_def showNat.simps)
  from c g(1) have gs: "gold_price_json wGold = Some g"
      and gd: "\<forall>p \<in> set (history g).
               \<exists>s \<in> set (if g_source g = ''Twelve Data API'' then tdDays (twelveData allUp (goldUrl allUp))
                           else avDays (alphaVantage allUp (goldFallbackUrl allUp))).
                 p_date p = formatDate allUp s
                 \<and> (fourDigitDay (newDate allUp s) \<longrightarrow> specDateShape (p_date p))"
    by (elim conjE, simp)+
  from gd valid have gshape: "\<forall>p \<in> set (history g). specDateShape (p_date p)"
    by (auto simp: g(2) sentGold)
  from c f(1) have fs: "fed_policy_json wFed = Some f"
      and fd: "\<forall>p \<in> set (f_data f).
               \<exists>s \<in> set (fredDays (fred allUp (fredUrl allUp ''DFF''))).
                 f_date p = formatDate allUp s
                 \<and> (fourDigitDay (newDate allUp s) \<longrightarrow> specDateShape (f_date p))"
    by (elim conjE, simp)+
  from fd valid have fshape: "\<forall>p \<in> set (f_data f). specDateShape (f_date p)"
    by (auto simp: sentFed)
  from c x(1) have xs: "dollar_index_json wIndex = Some x"
      and xd: "\<forall>p \<in> set (x_data x).
               \<exists>s \<in> set (if x_source x = ''Twelve Data API'' then tdDays (twelveData allUp (dxyUrl allUp))
                           else tdDays (twelveData allUp (pairUrl allUp ''EUR/USD''))).
                 x_date p = formatDate allUp s
                 \<and> (fourDigitDay (newDate allUp s) \<longrightarrow> specDateShape (x_date p))"
    by (elim conjE, simp)+
  from xd valid have xshape: "\<forall>p \<in> set (x_data x). specDateShape (x_date p)"
    by (auto simp: x(2) sentIndex)
  from c n(1) have ns: "geopolitical_events_json wNews = Some n"
      and nd: "\<exists>ok data arts.
               newsApi allUp (newsUrl allUp) = Response ok (Some data) \<and> articles data = Some arts
               \<and> (\<forall>ev \<in> set (events n).
                     \<exists>a \<in> set arts. \<exists>published.
                       publishedAt a = Some published \<and> e_date ev = beforeT published)"
    by (elim conjE, simp)+
  from nd have nshape: "\<forall>ev \<in> set (events n). e_date ev = ''2024-01-15''"
    by (auto simp: sentNews story_def beforeT_def)
  show ?thesis
    using valid(1) day shape fmt g gs gshape f fs fshape x xs xshape n ns nshape by blast
qed

end
